theory Spec2Isabelle
  imports Complex_Main "HOL-Library.Word"
begin

section \<open>Numbers, steps and tensors\<close>

text \<open>
  The module computes on float32 tensors. Here a float32 value is a real number and the
  arithmetic of tensors is exact: rounding, infinities and NaN are left out. The exception is
  the scalar arithmetic of lines 232 to 235 of the dense update, which adds a term of the
  order of \<open>1e-30\<close> to a rate: there every operation rounds its result to float32
  (\<open>to_float32\<close>), because what it returns is decided by the rounding. Where TensorFlow
  would produce NaN or an infinity (the mean of an empty tensor, the reciprocal square root
  of 0) the HOL term has the value that division by zero has in HOL, and the theorems that
  depend on it say so in a hypothesis. Integers keep their machine width where the source
  converts them (\<open>tf.to_int32\<close>).

  The global step is the only ambient state the schedules read. A scalar tensor that depends
  on it (a learning rate, a decay rate, the quantization noise) is a function of the step.
\<close>

type_synonym global_step = int

type_synonym scalar = "global_step \<Rightarrow> real"

text \<open>\<open>step_num\<close>: the global step as a float.\<close>

definition step_num :: scalar where
  "step_num t = real_of_int t"

text \<open>\<open>tf.rsqrt\<close> and \<open>tf.sign\<close>.\<close>

definition rsqrt :: "real \<Rightarrow> real" where
  "rsqrt x = 1 / sqrt x"

definition sign :: "real \<Rightarrow> real" where
  "sign x = (if x < 0 then - 1 else if x = 0 then 0 else 1)"

text \<open>
  A tensor is its static shape and its elements in row-major order
  (\<open>length (vals x) = prod_list (shape x)\<close> for every tensor TensorFlow builds). A
  variable's storage type is float32 or bfloat16.
\<close>

record tensor =
  shape :: "nat list"
  vals :: "real list"

datatype dtype = Float32 | BFloat16

record variable =
  var_name :: string
  var_dtype :: dtype
  var_value :: tensor

text \<open>
  A tensor of a given static shape. TensorFlow raises a \<open>ValueError\<close> when it combines
  tensors whose shapes do not broadcast together. Broadcasting between different shapes is
  not part of this development: the update below fails with that error whenever the
  gradient, the variable or a slot has not the shape that \<open>_create_slots\<close> and the
  gradient computation give it.
\<close>

definition has_shape :: "tensor \<Rightarrow> nat list \<Rightarrow> bool" where
  "has_shape x shp = (shape x = shp \<and> length (vals x) = prod_list shp)"

definition zeros :: "nat list \<Rightarrow> tensor" where
  "zeros shp = \<lparr>shape = shp, vals = replicate (prod_list shp) 0\<rparr>"

text \<open>
  Elementwise operations: on one tensor, and on two tensors of the same shape. The update
  checks the shapes before it combines two tensors.
\<close>

definition tmap :: "(real \<Rightarrow> real) \<Rightarrow> tensor \<Rightarrow> tensor" where
  "tmap f x = \<lparr>shape = shape x, vals = map f (vals x)\<rparr>"

definition tzip :: "(real \<Rightarrow> real \<Rightarrow> real) \<Rightarrow> tensor \<Rightarrow> tensor \<Rightarrow> tensor" where
  "tzip f x y = \<lparr>shape = shape x, vals = map2 f (vals x) (vals y)\<rparr>"

text \<open>\<open>rows n k xs\<close>: the first \<open>k\<close> consecutive blocks of \<open>n\<close> elements of \<open>xs\<close>.\<close>

fun rows :: "nat \<Rightarrow> nat \<Rightarrow> 'a list \<Rightarrow> 'a list list" where
  "rows n 0 xs = []"
| "rows n (Suc k) xs = take n xs # rows n k (drop n xs)"

text \<open>\<open>columns n rs\<close>: the first \<open>n\<close> columns of the rows \<open>rs\<close>.\<close>

fun columns :: "nat \<Rightarrow> 'a list list \<Rightarrow> 'a list list" where
  "columns 0 rs = []"
| "columns (Suc n) rs = map hd rs # columns n (map tl rs)"

text \<open>
  \<open>tf.reduce_mean\<close>: over all elements, over the last axis (with and without
  \<open>keepdims\<close>) and over the second-to-last axis. The last two are only called on
  tensors of rank at least 2, as in the source.
\<close>

definition mean :: "real list \<Rightarrow> real" where
  "mean xs = sum_list xs / real (length xs)"

definition reduce_mean :: "tensor \<Rightarrow> real" where
  "reduce_mean x = mean (vals x)"

definition reduce_mean_last :: "bool \<Rightarrow> tensor \<Rightarrow> tensor" where
  "reduce_mean_last keepdims x =
     (let n = last (shape x); outer = butlast (shape x)
      in \<lparr>shape = (if keepdims then outer @ [1] else outer),
          vals = map mean (rows n (prod_list outer) (vals x))\<rparr>)"

definition reduce_mean_second_last :: "tensor \<Rightarrow> tensor" where
  "reduce_mean_second_last x =
     (let n = last (shape x); m = last (butlast (shape x));
          batch = butlast (butlast (shape x))
      in \<lparr>shape = batch @ [n],
          vals = concat (map (\<lambda>b. map mean (columns n (rows n m b)))
                            (rows (m * n) (prod_list batch) (vals x)))\<rparr>)"

text \<open>\<open>reduce_rms\<close>.\<close>

definition reduce_rms :: "tensor \<Rightarrow> real" where
  "reduce_rms x = sqrt (reduce_mean (tmap (\<lambda>v. v\<^sup>2) x))"

text \<open>
  The three broadcasts of the factored update: a tensor of shape \<open>[.., m]\<close> divided by one
  of shape \<open>[.., 1]\<close>; a tensor of shape \<open>[.., m, n]\<close> times \<open>expand_dims r (-1)\<close> for
  \<open>r\<close> of shape \<open>[.., m]\<close>; and times \<open>expand_dims c (-2)\<close> for \<open>c\<close> of shape \<open>[.., n]\<close>.
\<close>

definition div_keepdims :: "tensor \<Rightarrow> tensor \<Rightarrow> tensor" where
  "div_keepdims x l =
     (let m = last (shape x)
      in \<lparr>shape = shape x,
          vals = concat (map2 (\<lambda>row d. map (\<lambda>v. v / d) row)
                              (rows m (prod_list (butlast (shape x))) (vals x)) (vals l))\<rparr>)"

definition mul_expand_last :: "tensor \<Rightarrow> tensor \<Rightarrow> tensor" where
  "mul_expand_last x r =
     (let n = last (shape x)
      in \<lparr>shape = shape x,
          vals = concat (map2 (\<lambda>row rv. map (\<lambda>v. v * rv) row)
                              (rows n (prod_list (butlast (shape x))) (vals x)) (vals r))\<rparr>)"

definition mul_expand_second_last :: "tensor \<Rightarrow> tensor \<Rightarrow> tensor" where
  "mul_expand_second_last x c =
     (let n = last (shape x); m = last (butlast (shape x));
          batch = prod_list (butlast (butlast (shape x)))
      in \<lparr>shape = shape x,
          vals = concat (map2 (\<lambda>b cb. concat (map (\<lambda>row. map2 (*) row cb) (rows n m b)))
                              (rows (m * n) batch (vals x)) (rows n batch (vals c)))\<rparr>)"

section \<open>Decay-rate and learning-rate schedules\<close>

text \<open>
  \<open>adafactor_decay_rate_adam\<close> and \<open>adafactor_decay_rate_pow\<close>. \<open>tf.pow\<close> on a positive
  base is \<open>powr\<close>; the base is positive at every non-negative step.
\<close>

definition adafactor_decay_rate_adam :: "real \<Rightarrow> scalar" where
  "adafactor_decay_rate_adam beta2 gs =
     (let t = step_num gs + 1
      in beta2 * (1 - beta2 powr (t - 1)) / (1 - beta2 powr t))"

definition adafactor_decay_rate_pow :: "real \<Rightarrow> scalar" where
  "adafactor_decay_rate_pow exponent gs = 1 - (step_num gs + 1) powr (- exponent)"

text \<open>\<open>AdafactorOptimizer._decay_rate_default\<close> and \<open>_learning_rate_default\<close>.\<close>

definition decay_rate_default :: scalar where
  "decay_rate_default = adafactor_decay_rate_pow 0.8"

definition learning_rate_default :: "bool \<Rightarrow> scalar" where
  "learning_rate_default multiply_by_parameter_scale gs =
     (let learning_rate = min (rsqrt (step_num gs + 1)) 0.01
      in if \<not> multiply_by_parameter_scale then learning_rate * 0.05 else learning_rate)"

section \<open>Deterministic noise\<close>

text \<open>
  \<open>noise_from_step_num\<close>. The step is read through \<open>tf.to_int32\<close>, which keeps the low 32
  bits, and the increment wraps; \<open>//\<close> and \<open>tf.mod\<close> on the signed value round towards minus
  infinity, as \<open>div\<close> and \<open>mod\<close> on \<open>int\<close> do. Python's \<open>% 1.0\<close> and \<open>tf.mod ret 1.0\<close> on a
  non-negative float are the fractional part.
\<close>

definition to_int32 :: "global_step \<Rightarrow> 32 word" where
  "to_int32 gs = word_of_int gs"

definition phi :: real where
  "phi = (sqrt 5 - 1) / 2"

definition noise_from_step_num :: scalar where
  "noise_from_step_num gs =
     (let step = to_int32 gs + 1;
          ret = fold (\<lambda>i ret. ret + frac (phi * 2 ^ i) * real_of_int (sint step div 2 ^ i mod 2))
                     [0..<30] 0
      in frac ret)"

section \<open>Simulated quantization\<close>

text \<open>
  \<open>simulated_quantize\<close>, with a scalar noise. \<open>2 ** (num_bits - 1)\<close> is a Python power of
  an integer, a float when the exponent is negative.
\<close>

definition quantize_row :: "real \<Rightarrow> real \<Rightarrow> real list \<Rightarrow> real list" where
  "quantize_row max_int noise row =
     (let max_abs = Max (set (map abs row)) + 1 / 10 ^ 9;
          scale = max_abs / max_int
      in map (\<lambda>v. real_of_int \<lfloor>v / scale + noise\<rfloor> * scale) row)"

definition simulated_quantize :: "tensor \<Rightarrow> int \<Rightarrow> real \<Rightarrow> tensor" where
  "simulated_quantize x num_bits noise =
     (let shp = shape x
      in if \<not> (2 \<le> length shp \<and> 1 < last shp) then x
         else let max_int = 2 powr real_of_int (num_bits - 1) - 1
              in \<lparr>shape = shp,
                  vals = concat (map (quantize_row max_int noise)
                                     (rows (last shp) (prod_list (butlast shp)) (vals x)))\<rparr>)"

section \<open>Parameter encoding\<close>

text \<open>
  \<open>tf.to_bfloat16\<close> is TensorFlow's cast: the nearest value with 8 significant bits, ties to
  the even one. The result of a float32 operation is the nearest value with 24 significant
  bits, ties to the even one. The exponent range of neither format is limited here.
\<close>

definition round_half_even :: "real \<Rightarrow> int" where
  "round_half_even r =
     (let f = \<lfloor>r\<rfloor>; d = r - real_of_int f
      in if d < 1 / 2 then f else if 1 / 2 < d then f + 1 else if even f then f else f + 1)"

definition to_bfloat16 :: "real \<Rightarrow> real" where
  "to_bfloat16 x =
     (if x = 0 then 0
      else let u = 2 powr (real_of_int \<lfloor>log 2 \<bar>x\<bar>\<rfloor> - 7)
           in real_of_int (round_half_even (x / u)) * u)"

definition to_float32 :: "real \<Rightarrow> real" where
  "to_float32 x =
     (if x = 0 then 0
      else let u = 2 powr (real_of_int \<lfloor>log 2 \<bar>x\<bar>\<rfloor> - 23)
           in real_of_int (round_half_even (x / u)) * u)"

text \<open>\<open>_randomized_roundoff_to_bfloat16\<close> and \<open>_to_bfloat16_unbiased\<close>, on one element.\<close>

definition randomized_roundoff_to_bfloat16 :: "real \<Rightarrow> real \<Rightarrow> real \<Rightarrow> real \<Rightarrow> real" where
  "randomized_roundoff_to_bfloat16 x noise cand1 cand2 =
     (let step_size = cand2 - cand1;
          fpart = (x - cand1) / step_size
      in if noise < fpart then cand2 else cand1)"

definition to_bfloat16_unbiased :: "real \<Rightarrow> real \<Rightarrow> real" where
  "to_bfloat16_unbiased x0 noise =
     (let x_sign = sign x0;
          x = x0 * x_sign + 1 / 10 ^ 30;
          cand1 = to_bfloat16 x;
          cand2 = to_bfloat16 (if cand1 < x then cand1 * 1.005 else cand1 * 0.995);
          ret = randomized_roundoff_to_bfloat16 x noise cand1 cand2
      in ret * to_bfloat16 x_sign)"

text \<open>
  \<open>ParameterEncoding\<close>, whose \<open>encode\<close> and \<open>decode\<close> raise, and its subclass
  \<open>EighthPowerEncoding\<close>.
\<close>

datatype error =
  ValueError string
  | TypeError string
  | NotImplementedError string
  | AttributeError string
  | MissingSlot string

datatype parameter_encoding = ParameterEncoding | EighthPowerEncoding

definition eighth_power_encode :: "real \<Rightarrow> real \<Rightarrow> real" where
  "eighth_power_encode x noise =
     to_bfloat16_unbiased (sign x * (((\<bar>x\<bar> * 128)\<^sup>2)\<^sup>2)\<^sup>2) noise"

definition eighth_power_decode :: "real \<Rightarrow> real" where
  "eighth_power_decode x = sign x * (sqrt (sqrt (sqrt \<bar>x\<bar>)) / 128)"

fun encode :: "parameter_encoding \<Rightarrow> tensor \<Rightarrow> real \<Rightarrow> error + tensor" where
  "encode ParameterEncoding x noise = Inl (NotImplementedError ''encode not implemented'')"
| "encode EighthPowerEncoding x noise = Inr (tmap (\<lambda>v. eighth_power_encode v noise) x)"

fun decode :: "parameter_encoding \<Rightarrow> tensor \<Rightarrow> error + tensor" where
  "decode ParameterEncoding x = Inl (NotImplementedError ''decode not implemented'')"
| "decode EighthPowerEncoding x = Inr (tmap eighth_power_decode x)"

section \<open>The optimizer\<close>

record adafactor =
  multiply_by_parameter_scale :: bool
  learning_rate :: scalar
  decay_rate :: scalar
  beta1 :: real
  clipping_threshold :: "real option"
  factored :: bool
  simulated_quantize_bits :: "int option"
  parameter_encoding :: "parameter_encoding option"
  use_locking :: bool
  name :: string
  quantization_noise :: scalar
  epsilon1 :: real
  epsilon2 :: real

text \<open>\<open>AdafactorOptimizer.__init__\<close>: an argument left out or \<open>None\<close> is \<open>None\<close> here.\<close>

definition AdafactorOptimizer ::
  "bool \<Rightarrow> scalar option \<Rightarrow> scalar option \<Rightarrow> real \<Rightarrow> real option \<Rightarrow> bool \<Rightarrow> int option
   \<Rightarrow> parameter_encoding option \<Rightarrow> bool \<Rightarrow> string \<Rightarrow> real \<Rightarrow> real \<Rightarrow> adafactor" where
  "AdafactorOptimizer mps lr dr b1 clip fac bits enc locking nm eps1 eps2 =
     \<lparr>multiply_by_parameter_scale = mps,
      learning_rate = (case lr of None \<Rightarrow> learning_rate_default mps | Some l \<Rightarrow> l),
      decay_rate = (case dr of None \<Rightarrow> decay_rate_default | Some d \<Rightarrow> d),
      beta1 = b1,
      clipping_threshold = clip,
      factored = fac,
      simulated_quantize_bits = bits,
      parameter_encoding = enc,
      use_locking = locking,
      name = nm,
      quantization_noise = noise_from_step_num,
      epsilon1 = eps1,
      epsilon2 = eps2\<rparr>"

text \<open>The constructor with every argument at its default.\<close>

definition AdafactorOptimizer_default :: adafactor where
  "AdafactorOptimizer_default =
     AdafactorOptimizer True None None 0 (Some 1) True None None False ''Adafactor''
       (1 / 10 ^ 30) (1 / 10 ^ 3)"

definition should_use_factored_second_moment_estimate :: "adafactor \<Rightarrow> nat list \<Rightarrow> bool" where
  "should_use_factored_second_moment_estimate opt shp = (factored opt \<and> 2 \<le> length shp)"

text \<open>
  Slots: one tensor per variable name and slot name. \<open>_zeros_slot\<close> and
  \<open>_get_or_make_slot\<close> keep a slot that exists already. A float is true when it is not 0.
\<close>

type_synonym slots = "string \<times> string \<Rightarrow> tensor option"

definition get_or_make_slot :: "slots \<Rightarrow> variable \<Rightarrow> tensor \<Rightarrow> string \<Rightarrow> slots" where
  "get_or_make_slot s var val slot_name =
     (case s (var_name var, slot_name) of
        Some _ \<Rightarrow> s
      | None \<Rightarrow> s((var_name var, slot_name) \<mapsto> val))"

definition zeros_slot :: "slots \<Rightarrow> variable \<Rightarrow> string \<Rightarrow> slots" where
  "zeros_slot s var slot_name = get_or_make_slot s var (zeros (shape (var_value var))) slot_name"

definition get_slot :: "slots \<Rightarrow> variable \<Rightarrow> string \<Rightarrow> tensor option" where
  "get_slot s var slot_name = s (var_name var, slot_name)"

definition create_slots_var :: "adafactor \<Rightarrow> variable \<Rightarrow> slots \<Rightarrow> slots" where
  "create_slots_var opt var s0 =
     (let shp = shape (var_value var);
          s1 = (if beta1 opt \<noteq> 0 then zeros_slot s0 var ''m'' else s0)
      in if should_use_factored_second_moment_estimate opt shp then
           let r_val = zeros (take (length shp - 1) shp);
               c_val = zeros (take (length shp - 2) shp @ drop (length shp - 1) shp);
               s2 = get_or_make_slot s1 var r_val ''vr''
           in get_or_make_slot s2 var c_val ''vc''
         else
           let v_val = zeros shp
           in get_or_make_slot s1 var v_val ''v'')"

definition create_slots :: "adafactor \<Rightarrow> variable list \<Rightarrow> slots \<Rightarrow> slots" where
  "create_slots opt var_list s = fold (create_slots_var opt) var_list s"

text \<open>\<open>_parameter_scale\<close> and \<open>cast_like\<close> (the slot \<open>m\<close> has the variable's type).\<close>

definition parameter_scale :: "adafactor \<Rightarrow> tensor \<Rightarrow> real" where
  "parameter_scale opt var = max (reduce_rms var) (epsilon2 opt)"

definition cast_like :: "tensor \<Rightarrow> variable \<Rightarrow> tensor" where
  "cast_like x y = (if var_dtype y = Float32 then x else tmap to_bfloat16 x)"

section \<open>The dense update\<close>

text \<open>
  \<open>_resource_apply_dense\<close>, in the order of the source. Each \<open>tf.assign\<close> is an update: the
  variable or a slot, and the value written to it; the result is the list that
  \<open>tf.group\<close> receives. Reading a slot that does not exist, or calling the encoding of an
  optimizer that has none, fails.
\<close>

datatype target = Variable | Slot string

type_synonym update = "target \<times> tensor"

text \<open>Lines 219 to 220: the squared gradient and its mean.\<close>

definition grad_squared :: "adafactor \<Rightarrow> tensor \<Rightarrow> tensor" where
  "grad_squared opt grad = tmap (\<lambda>g. g\<^sup>2 + epsilon1 opt) grad"

definition grad_squared_mean :: "adafactor \<Rightarrow> tensor \<Rightarrow> real" where
  "grad_squared_mean opt grad = reduce_mean (grad_squared opt grad)"

text \<open>Lines 223 to 225: the old value, decoded when the variable is stored as bfloat16.\<close>

definition old_val :: "adafactor \<Rightarrow> variable \<Rightarrow> error + tensor" where
  "old_val opt var =
     (if var_dtype var = BFloat16 then
        (case parameter_encoding opt of
           None \<Rightarrow> Inl (AttributeError ''decode'')
         | Some enc \<Rightarrow> decode enc (var_value var))
      else Inr (var_value var))"

text \<open>
  Lines 221 to 235: the decay rate and the update scale, each made to depend on the gradient,
  and the mixing rate. The product with the float32 constant \<open>1e-30\<close>, the two sums and
  the difference are float32 operations.
\<close>

definition perturbation :: "adafactor \<Rightarrow> tensor \<Rightarrow> real" where
  "perturbation opt grad = to_float32 (grad_squared_mean opt grad * to_float32 (1 / 10 ^ 30))"

definition used_decay_rate :: "adafactor \<Rightarrow> global_step \<Rightarrow> tensor \<Rightarrow> real" where
  "used_decay_rate opt gs grad = to_float32 (decay_rate opt gs + perturbation opt grad)"

definition scaled_update_scale :: "adafactor \<Rightarrow> global_step \<Rightarrow> tensor \<Rightarrow> real" where
  "scaled_update_scale opt gs old =
     (if multiply_by_parameter_scale opt then learning_rate opt gs * parameter_scale opt old
      else learning_rate opt gs)"

definition used_update_scale :: "adafactor \<Rightarrow> global_step \<Rightarrow> tensor \<Rightarrow> tensor \<Rightarrow> real" where
  "used_update_scale opt gs grad old =
     to_float32 (scaled_update_scale opt gs old + perturbation opt grad)"

definition mixing_rate_of :: "real \<Rightarrow> real" where
  "mixing_rate_of decay = to_float32 (1 - decay)"

text \<open>
  Lines 236 to 257: the second-moment accumulators and the normalized update \<open>x\<close>. This is
  where the gradient first meets the variable's slots.
\<close>

definition second_moment ::
  "adafactor \<Rightarrow> slots \<Rightarrow> variable \<Rightarrow> tensor \<Rightarrow> real \<Rightarrow> error + update list \<times> tensor" where
  "second_moment opt s var grad decay =
     (let mixing_rate = mixing_rate_of decay;
          g2 = grad_squared opt grad;
          shp = shape (var_value var)
      in if \<not> (has_shape (var_value var) shp \<and> has_shape grad shp) then
           Inl (ValueError ''Incompatible shapes'')
         else if should_use_factored_second_moment_estimate opt shp then
           let grad_squared_row_mean = reduce_mean_last False g2;
               grad_squared_col_mean = reduce_mean_second_last g2
           in (case get_slot s var ''vr'' of
                 None \<Rightarrow> Inl (MissingSlot ''vr'')
               | Some vr \<Rightarrow>
                   if \<not> has_shape vr (butlast shp) then Inl (ValueError ''Incompatible shapes'')
                   else
                     let new_vr = tzip (+) (tmap ((*) decay) vr)
                                           (tmap ((*) mixing_rate) grad_squared_row_mean)
                     in (case get_slot s var ''vc'' of
                           None \<Rightarrow> Inl (MissingSlot ''vc'')
                         | Some vc \<Rightarrow>
                             if \<not> has_shape vc (butlast (butlast shp) @ [last shp]) then
                               Inl (ValueError ''Incompatible shapes'')
                             else
                               let new_vc = tzip (+) (tmap ((*) decay) vc)
                                              (tmap ((*) mixing_rate) grad_squared_col_mean);
                                   long_term_mean = reduce_mean_last True new_vr;
                                   r_factor = tmap rsqrt (div_keepdims new_vr long_term_mean);
                                   c_factor = tmap rsqrt new_vc;
                                   x = mul_expand_second_last (mul_expand_last grad r_factor)
                                         c_factor
                               in Inr ([(Slot ''vr'', new_vr), (Slot ''vc'', new_vc)], x)))
         else
           (case get_slot s var ''v'' of
              None \<Rightarrow> Inl (MissingSlot ''v'')
            | Some v \<Rightarrow>
                if \<not> has_shape v shp then Inl (ValueError ''Incompatible shapes'')
                else
                  let new_v = tzip (+) (tmap ((*) decay) v) (tmap ((*) mixing_rate) g2);
                      x = tzip (*) grad (tmap rsqrt new_v)
                  in Inr ([(Slot ''v'', new_v)], x)))"

text \<open>Lines 258 to 260: update clipping.\<close>

definition clip :: "adafactor \<Rightarrow> tensor \<Rightarrow> tensor" where
  "clip opt x =
     (case clipping_threshold opt of
        None \<Rightarrow> x
      | Some c \<Rightarrow>
          let clipping_denom = max 1 (reduce_rms x / c)
          in tmap (\<lambda>v. v / clipping_denom) x)"

text \<open>Lines 262 to 267: momentum. The result is the subtrahend and the update of \<open>m\<close>, if any.\<close>

definition momentum ::
  "adafactor \<Rightarrow> slots \<Rightarrow> variable \<Rightarrow> tensor \<Rightarrow> error + tensor \<times> update list" where
  "momentum opt s var subtrahend =
     (if beta1 opt \<noteq> 0 then
        (case get_slot s var ''m'' of
           None \<Rightarrow> Inl (MissingSlot ''m'')
         | Some m \<Rightarrow>
             if \<not> has_shape m (shape subtrahend) then Inl (ValueError ''Incompatible shapes'')
             else
               let new_m = tzip (+) (tmap ((*) (beta1 opt)) m)
                                    (tmap ((*) (1 - beta1 opt)) subtrahend)
               in Inr (new_m, [(Slot ''m'', cast_like new_m var)]))
      else Inr (subtrahend, []))"

text \<open>
  Lines 268 to 275: the value written to the variable. In line 274 the variable itself is
  an operand of the subtraction: for a variable stored as bfloat16 TensorFlow refuses the
  float32 subtrahend with a \<open>TypeError\<close>.
\<close>

definition new_val ::
  "adafactor \<Rightarrow> global_step \<Rightarrow> variable \<Rightarrow> tensor \<Rightarrow> tensor \<Rightarrow> error + tensor" where
  "new_val opt gs var old subtrahend =
     (let plain = tzip (-) old subtrahend;
          encoded =
            (if var_dtype var = BFloat16 then
               (case parameter_encoding opt of
                  None \<Rightarrow> Inl (AttributeError ''encode'')
                | Some enc \<Rightarrow> encode enc plain (quantization_noise opt gs))
             else Inr plain)
      in case encoded of
           Inl e \<Rightarrow> Inl e
         | Inr v \<Rightarrow>
             (case simulated_quantize_bits opt of
                None \<Rightarrow> Inr v
              | Some bits \<Rightarrow>
                  if bits \<noteq> 0 then
                    if var_dtype var = BFloat16 then
                      Inl (TypeError ''Sub: float32 does not match bfloat16'')
                    else
                      Inr (simulated_quantize (tzip (-) (var_value var) subtrahend) bits
                             (quantization_noise opt gs))
                  else Inr v))"

definition resource_apply_dense ::
  "adafactor \<Rightarrow> slots \<Rightarrow> global_step \<Rightarrow> tensor \<Rightarrow> variable \<Rightarrow> error + update list" where
  "resource_apply_dense opt s gs grad var =
     (case old_val opt var of
        Inl e \<Rightarrow> Inl e
      | Inr old \<Rightarrow>
          (case second_moment opt s var grad (used_decay_rate opt gs grad) of
             Inl e \<Rightarrow> Inl e
           | Inr (updates, x0) \<Rightarrow>
               let x = clip opt x0;
                   subtrahend0 = tmap ((*) (used_update_scale opt gs grad old)) x
               in (case momentum opt s var subtrahend0 of
                     Inl e \<Rightarrow> Inl e
                   | Inr (subtrahend, m_updates) \<Rightarrow>
                       (case new_val opt gs var old subtrahend of
                          Inl e \<Rightarrow> Inl e
                        | Inr v \<Rightarrow> Inr ((Variable, v) # updates @ m_updates)))))"

text \<open>
  The update rule with the momentum branch absent, as the specification words the case
  \<open>\<beta>1 = 0\<close>: the steps of \<open>resource_apply_dense\<close> without lines 262 to 267. It reads no
  slot \<open>m\<close> and has no update for it.
\<close>

definition resource_apply_dense_without_momentum ::
  "adafactor \<Rightarrow> slots \<Rightarrow> global_step \<Rightarrow> tensor \<Rightarrow> variable \<Rightarrow> error + update list" where
  "resource_apply_dense_without_momentum opt s gs grad var =
     (case old_val opt var of
        Inl e \<Rightarrow> Inl e
      | Inr old \<Rightarrow>
          (case second_moment opt s var grad (used_decay_rate opt gs grad) of
             Inl e \<Rightarrow> Inl e
           | Inr (updates, x0) \<Rightarrow>
               let x = clip opt x0;
                   subtrahend = tmap ((*) (used_update_scale opt gs grad old)) x
               in (case new_val opt gs var old subtrahend of
                     Inl e \<Rightarrow> Inl e
                   | Inr v \<Rightarrow> Inr ((Variable, v) # updates))))"

text \<open>The value that one call writes to a target, if it writes one.\<close>

definition written :: "error + update list \<Rightarrow> target \<Rightarrow> tensor option" where
  "written r tgt = (case r of Inl e \<Rightarrow> None | Inr updates \<Rightarrow> map_of updates tgt)"

section \<open>The factory\<close>

text \<open>
  \<open>adafactor_optimizer_from_hparams\<close>. The hyperparameters it reads are the fields of the
  record; \<open>simulated_parameter_quantize_bits\<close> is \<open>None\<close> when the attribute is absent, and
  \<open>getattr\<close> then gives 0.
\<close>

record hparams =
  optimizer_adafactor_decay_type :: string
  optimizer_adafactor_beta2 :: real
  optimizer_adafactor_memory_exponent :: real
  weight_dtype :: string
  optimizer_adafactor_multiply_by_parameter_scale :: bool
  optimizer_adafactor_beta1 :: real
  optimizer_adafactor_clipping_threshold :: "real option"
  optimizer_adafactor_factored :: bool
  simulated_parameter_quantize_bits :: "int option"

definition adafactor_optimizer_from_hparams :: "hparams \<Rightarrow> scalar option \<Rightarrow> error + adafactor" where
  "adafactor_optimizer_from_hparams hp lr =
     (let chosen =
            (if optimizer_adafactor_decay_type hp = ''adam'' then
               Inr (adafactor_decay_rate_adam (optimizer_adafactor_beta2 hp))
             else if optimizer_adafactor_decay_type hp = ''pow'' then
               Inr (adafactor_decay_rate_pow (optimizer_adafactor_memory_exponent hp))
             else Inl (ValueError ''unknown optimizer_adafactor_decay_type''))
      in case chosen of
           Inl e \<Rightarrow> Inl e
         | Inr dr \<Rightarrow>
             let enc = (if weight_dtype hp = ''bfloat16'' then Some EighthPowerEncoding else None)
             in Inr (AdafactorOptimizer
                       (optimizer_adafactor_multiply_by_parameter_scale hp)
                       lr
                       (Some dr)
                       (optimizer_adafactor_beta1 hp)
                       (optimizer_adafactor_clipping_threshold hp)
                       (optimizer_adafactor_factored hp)
                       (Some (case simulated_parameter_quantize_bits hp of None \<Rightarrow> 0 | Some b \<Rightarrow> b))
                       enc
                       False
                       ''Adafactor''
                       (1 / 10 ^ 30)
                       (1 / 10 ^ 3)))"

section \<open>The power schedule\<close>

lemma pow_schedule_base: "0 \<le> t \<Longrightarrow> 1 \<le> step_num t + 1"
  by (simp add: step_num_def)

text \<open>
  Claim C2, as stated, at step 1 with exponent 1/2: the schedule gives
  \<open>1 - 1 / sqrt 2\<close>, which is below the claimed lower bound \<open>1 - 1 / 2\<close>.
\<close>

theorem decay_rate_pow_lower_bound_counterexample:
  "\<not> (1 - 1 / (real_of_int 1 + 1) \<le> adafactor_decay_rate_pow (1 / 2) 1)"
proof -
  have "sqrt 2 < 2"
    by (rule real_less_lsqrt) simp_all
  then have "1 / 2 < 1 / sqrt 2"
    by (simp add: field_simps)
  moreover have "(2::real) powr (- (1 / 2)) = 1 / sqrt 2"
    by (simp add: powr_minus powr_half_sqrt field_simps)
  ultimately show ?thesis
    by (simp add: adafactor_decay_rate_pow_def step_num_def)
qed

text \<open>
  Claim C2, amended: for every step \<open>t \<ge> 0\<close> and exponent \<open>e\<close> strictly between 0 and 1,
  the power schedule returns \<open>d = 1 - (t + 1) ^ (- e)\<close>, and \<open>0 \<le> d \<le> 1 - 1 / (t + 1) < 1\<close>:
  the bound of the claim holds in the other direction.
\<close>

theorem decay_rate_pow_bounds:
  assumes "0 \<le> t" and "0 < e" and "e < 1"
  shows "adafactor_decay_rate_pow e t = 1 - (real_of_int t + 1) powr (- e)
       \<and> 0 \<le> adafactor_decay_rate_pow e t
       \<and> adafactor_decay_rate_pow e t \<le> 1 - 1 / (real_of_int t + 1)
       \<and> adafactor_decay_rate_pow e t < 1"
proof -
  define b where "b = real_of_int t + 1"
  have b1: "1 \<le> b"
    using assms(1) by (simp add: b_def)
  have d: "adafactor_decay_rate_pow e t = 1 - b powr (- e)"
    by (simp add: adafactor_decay_rate_pow_def step_num_def b_def)
  have pos: "0 < b powr (- e)"
    using b1 by simp
  have "b powr (- e) \<le> b powr 0"
    using b1 assms(2) by (intro powr_mono) simp_all
  then have up: "b powr (- e) \<le> 1"
    using b1 by simp
  have "b powr (- 1) \<le> b powr (- e)"
    using b1 assms(3) by (intro powr_mono) simp_all
  then have low: "1 / b \<le> b powr (- e)"
    using b1 by (simp add: powr_minus_divide)
  show ?thesis
    using d pos up low by (simp add: b_def)
qed

theorem decay_rate_pow_bounds_witness:
  "(0::int) \<le> 3 \<and> (0::real) < 4 / 5 \<and> (4 / 5 :: real) < 1
   \<and> adafactor_decay_rate_pow (4 / 5) 3 = 1 - (real_of_int 3 + 1) powr (- (4 / 5))
   \<and> 0 \<le> adafactor_decay_rate_pow (4 / 5) 3
   \<and> adafactor_decay_rate_pow (4 / 5) 3 \<le> 1 - 1 / (real_of_int 3 + 1)
   \<and> adafactor_decay_rate_pow (4 / 5) 3 < 1"
  using decay_rate_pow_bounds [of 3 "4 / 5"] by simp

section \<open>Slot creation\<close>

lemma get_or_make_slot_other:
  "k \<noteq> (var_name var, n) \<Longrightarrow> get_or_make_slot s var val n k = s k"
  by (simp add: get_or_make_slot_def split: option.splits)

lemma get_or_make_slot_same:
  "get_or_make_slot s var val n (var_name var, n) =
     (case s (var_name var, n) of None \<Rightarrow> Some val | Some t \<Rightarrow> Some t)"
  by (simp add: get_or_make_slot_def split: option.splits)

lemma get_or_make_slot_keeps:
  "s k = Some t \<Longrightarrow> get_or_make_slot s var val n k = Some t"
  by (cases "k = (var_name var, n)") (simp_all add: get_or_make_slot_other get_or_make_slot_same)

lemma create_slots_var_other:
  "fst k \<noteq> var_name var \<Longrightarrow> create_slots_var opt var s k = s k"
  by (cases k) (simp add: create_slots_var_def zeros_slot_def Let_def get_or_make_slot_other)

lemma create_slots_var_keeps:
  "s k = Some t \<Longrightarrow> create_slots_var opt var s k = Some t"
  by (simp add: create_slots_var_def zeros_slot_def Let_def get_or_make_slot_keeps)

lemma slice_last: "take (length shp - Suc 0) shp = butlast shp"
  by (simp add: butlast_conv_take)

lemma slice_second_last:
  assumes "2 \<le> length shp"
  shows "take (length shp - 2) shp @ drop (length shp - Suc 0) shp
         = butlast (butlast shp) @ [last shp]"
proof -
  from assms have ne: "shp \<noteq> []" by auto
  have "drop (length shp - Suc 0) shp = [last shp]"
    using ne by (metis One_nat_def append_butlast_last_id append_eq_conv_conj length_butlast)
  moreover have "take (length shp - 2) shp = butlast (butlast shp)"
    by (simp add: butlast_conv_take numeral_2_eq_2)
  ultimately show ?thesis by simp
qed

lemma create_slots_var_fresh:
  assumes "\<forall>n. s (var_name var, n) = None"
  shows "create_slots_var opt var s (var_name var, n)
         = create_slots_var opt var (\<lambda>k. None) (var_name var, n)"
  using assms
  by (simp add: create_slots_var_def zeros_slot_def Let_def get_or_make_slot_def
      split: option.splits)

lemma create_slots_other:
  "var_name var \<notin> var_name ` set var_list \<Longrightarrow> create_slots opt var_list s (var_name var, n) = s (var_name var, n)"
  unfolding create_slots_def
  by (induction var_list arbitrary: s) (auto simp: create_slots_var_other)

lemma create_slots_keeps:
  "s k = Some t \<Longrightarrow> create_slots opt var_list s k = Some t"
  unfolding create_slots_def
  by (induction var_list arbitrary: s) (auto simp: create_slots_var_keeps)

lemma create_slots_fresh:
  assumes "var \<in> set var_list" "distinct (map var_name var_list)" "\<forall>n. s (var_name var, n) = None"
  shows "create_slots opt var_list s (var_name var, n)
         = create_slots_var opt var (\<lambda>k. None) (var_name var, n)"
  using assms unfolding create_slots_def
proof (induction var_list arbitrary: s)
  case Nil then show ?case by simp
next
  case (Cons a vl)
  show ?case
  proof (cases "a = var")
    case True
    have notin: "var_name var \<notin> var_name ` set vl" using Cons.prems(2) True by auto
    have "fold (create_slots_var opt) vl (create_slots_var opt var s) (var_name var, n)
          = create_slots_var opt var s (var_name var, n)"
      using create_slots_other[OF notin, of opt "create_slots_var opt var s" n]
      by (simp add: create_slots_def)
    then show ?thesis using True create_slots_var_fresh[OF Cons.prems(3)] by simp
  next
    case False
    then have in': "var \<in> set vl" using Cons.prems(1) by simp
    have ne: "var_name a \<noteq> var_name var" using Cons.prems(2) in' by auto
    have "\<forall>n. create_slots_var opt a s (var_name var, n) = None"
      using ne Cons.prems(3) by (simp add: create_slots_var_other)
    then show ?thesis using Cons.IH[OF in'] Cons.prems(2) by simp
  qed
qed

lemma create_slots_var_empty:
  "create_slots_var opt var (\<lambda>k. None) (var_name var, n) =
     (let shp = shape (var_value var) in
      if n = ''m'' then (if beta1 opt \<noteq> 0 then Some (zeros shp) else None)
      else if factored opt \<and> 2 \<le> length shp then
        (if n = ''vr'' then Some (zeros (butlast shp))
         else if n = ''vc'' then Some (zeros (butlast (butlast shp) @ [last shp]))
         else None)
      else (if n = ''v'' then Some (zeros shp) else None))"
  by (auto simp add: create_slots_var_def zeros_slot_def Let_def
      should_use_factored_second_moment_estimate_def get_or_make_slot_def slice_second_last
      slice_last split: option.splits)

text \<open>
  Claim C9: for every variable of the list that \<open>_create_slots\<close> receives (names
  distinct, no slot of the variable present before), a factored optimizer allocates for a
  variable of rank at least 2 the row accumulator \<open>vr\<close>, whose shape is the variable's
  shape without its last dimension, and the column accumulator \<open>vc\<close>, whose shape is the
  variable's shape without its second-to-last dimension, and no full accumulator \<open>v\<close>;
  otherwise it allocates the full accumulator \<open>v\<close> with the variable's shape and neither
  \<open>vr\<close> nor \<open>vc\<close>. Every accumulator is all zeros, the momentum slot \<open>m\<close> exists
  exactly when \<open>beta1\<close> is not 0, and no other slot is allocated.
\<close>

theorem create_slots_accumulators:
  assumes "var \<in> set var_list" and "distinct (map var_name var_list)"
    and "\<forall>n. s (var_name var, n) = None"
  shows "(let shp = shape (var_value var);
              slot = (\<lambda>n. create_slots opt var_list s (var_name var, n))
          in (if factored opt \<and> 2 \<le> length shp then
                slot ''vr'' = Some \<lparr>shape = butlast shp,
                                     vals = replicate (prod_list (butlast shp)) 0\<rparr>
                \<and> slot ''vc'' = Some \<lparr>shape = butlast (butlast shp) @ [last shp],
                    vals = replicate (prod_list (butlast (butlast shp) @ [last shp])) 0\<rparr>
                \<and> slot ''v'' = None
              else
                slot ''v'' = Some \<lparr>shape = shp, vals = replicate (prod_list shp) 0\<rparr>
                \<and> slot ''vr'' = None \<and> slot ''vc'' = None)
             \<and> slot ''m'' = (if beta1 opt \<noteq> 0
                              then Some \<lparr>shape = shp, vals = replicate (prod_list shp) 0\<rparr>
                              else None)
             \<and> (\<forall>n. n \<noteq> ''vr'' \<and> n \<noteq> ''vc'' \<and> n \<noteq> ''v'' \<and> n \<noteq> ''m'' \<longrightarrow> slot n = None))"
  by (simp add: Let_def create_slots_fresh [OF assms] create_slots_var_empty zeros_def)

text \<open>
  The theorem at a list of two variables, one of shape \<open>[2, 3]\<close> and one of shape
  \<open>[3]\<close>, for the optimizer with default arguments.
\<close>

theorem create_slots_accumulators_witness:
  "\<lparr>var_name = ''w'', var_dtype = Float32, var_value = zeros [2, 3]\<rparr>
     \<in> set [\<lparr>var_name = ''w'', var_dtype = Float32, var_value = zeros [2, 3]\<rparr>,
            \<lparr>var_name = ''b'', var_dtype = Float32, var_value = zeros [3]\<rparr>]
   \<and> distinct (map var_name
        [\<lparr>var_name = ''w'', var_dtype = Float32, var_value = zeros [2, 3]\<rparr>,
         \<lparr>var_name = ''b'', var_dtype = Float32, var_value = zeros [3]\<rparr>])
   \<and> create_slots AdafactorOptimizer_default
        [\<lparr>var_name = ''w'', var_dtype = Float32, var_value = zeros [2, 3]\<rparr>,
         \<lparr>var_name = ''b'', var_dtype = Float32, var_value = zeros [3]\<rparr>]
        (\<lambda>k. None) (''w'', ''vr'') = Some \<lparr>shape = [2], vals = [0, 0]\<rparr>
   \<and> create_slots AdafactorOptimizer_default
        [\<lparr>var_name = ''w'', var_dtype = Float32, var_value = zeros [2, 3]\<rparr>,
         \<lparr>var_name = ''b'', var_dtype = Float32, var_value = zeros [3]\<rparr>]
        (\<lambda>k. None) (''w'', ''vc'') = Some \<lparr>shape = [3], vals = [0, 0, 0]\<rparr>
   \<and> create_slots AdafactorOptimizer_default
        [\<lparr>var_name = ''w'', var_dtype = Float32, var_value = zeros [2, 3]\<rparr>,
         \<lparr>var_name = ''b'', var_dtype = Float32, var_value = zeros [3]\<rparr>]
        (\<lambda>k. None) (''w'', ''v'') = None
   \<and> create_slots AdafactorOptimizer_default
        [\<lparr>var_name = ''w'', var_dtype = Float32, var_value = zeros [2, 3]\<rparr>,
         \<lparr>var_name = ''b'', var_dtype = Float32, var_value = zeros [3]\<rparr>]
        (\<lambda>k. None) (''b'', ''v'') = Some \<lparr>shape = [3], vals = [0, 0, 0]\<rparr>
   \<and> create_slots AdafactorOptimizer_default
        [\<lparr>var_name = ''w'', var_dtype = Float32, var_value = zeros [2, 3]\<rparr>,
         \<lparr>var_name = ''b'', var_dtype = Float32, var_value = zeros [3]\<rparr>]
        (\<lambda>k. None) (''b'', ''vr'') = None
   \<and> create_slots AdafactorOptimizer_default
        [\<lparr>var_name = ''w'', var_dtype = Float32, var_value = zeros [2, 3]\<rparr>,
         \<lparr>var_name = ''b'', var_dtype = Float32, var_value = zeros [3]\<rparr>]
        (\<lambda>k. None) (''b'', ''m'') = None"
  using create_slots_accumulators
          [of "\<lparr>var_name = ''w'', var_dtype = Float32, var_value = zeros [2, 3]\<rparr>"
              "[\<lparr>var_name = ''w'', var_dtype = Float32, var_value = zeros [2, 3]\<rparr>,
                \<lparr>var_name = ''b'', var_dtype = Float32, var_value = zeros [3]\<rparr>]"
              "\<lambda>k. None" AdafactorOptimizer_default]
        create_slots_accumulators
          [of "\<lparr>var_name = ''b'', var_dtype = Float32, var_value = zeros [3]\<rparr>"
              "[\<lparr>var_name = ''w'', var_dtype = Float32, var_value = zeros [2, 3]\<rparr>,
                \<lparr>var_name = ''b'', var_dtype = Float32, var_value = zeros [3]\<rparr>]"
              "\<lambda>k. None" AdafactorOptimizer_default]
  by (simp add: Let_def AdafactorOptimizer_default_def AdafactorOptimizer_def zeros_def
      numeral_3_eq_3 numeral_2_eq_2)

section \<open>The decay-type selector of the factory\<close>

text \<open>
  Claim C10: a decay type that is neither \<open>adam\<close> nor \<open>pow\<close> makes the factory fail
  with a \<open>ValueError\<close>, and no optimizer is built; for \<open>adam\<close> and for \<open>pow\<close> the
  factory returns an optimizer whose decay rate is the corresponding schedule, with the
  configured \<open>beta2\<close> or memory exponent.
\<close>

theorem factory_decay_type:
  "(optimizer_adafactor_decay_type hp \<noteq> ''adam'' \<and> optimizer_adafactor_decay_type hp \<noteq> ''pow''
      \<longrightarrow> adafactor_optimizer_from_hparams hp lr
            = Inl (ValueError ''unknown optimizer_adafactor_decay_type''))
   \<and> (optimizer_adafactor_decay_type hp = ''adam''
      \<longrightarrow> (\<exists>opt. adafactor_optimizer_from_hparams hp lr = Inr opt
                \<and> decay_rate opt = adafactor_decay_rate_adam (optimizer_adafactor_beta2 hp)))
   \<and> (optimizer_adafactor_decay_type hp = ''pow''
      \<longrightarrow> (\<exists>opt. adafactor_optimizer_from_hparams hp lr = Inr opt
                \<and> decay_rate opt
                    = adafactor_decay_rate_pow (optimizer_adafactor_memory_exponent hp)))"
  by (simp add: adafactor_optimizer_from_hparams_def AdafactorOptimizer_def Let_def)

text \<open>
  The theorem at the decay types \<open>sgd\<close>, \<open>adam\<close> and \<open>pow\<close>.
\<close>

theorem factory_decay_type_witness:
  "adafactor_optimizer_from_hparams
     \<lparr>optimizer_adafactor_decay_type = ''sgd'', optimizer_adafactor_beta2 = 0.999,
      optimizer_adafactor_memory_exponent = 0.8, weight_dtype = ''float32'',
      optimizer_adafactor_multiply_by_parameter_scale = True, optimizer_adafactor_beta1 = 0,
      optimizer_adafactor_clipping_threshold = Some 1, optimizer_adafactor_factored = True,
      simulated_parameter_quantize_bits = None\<rparr> None
     = Inl (ValueError ''unknown optimizer_adafactor_decay_type'')
   \<and> (\<exists>opt. adafactor_optimizer_from_hparams
        \<lparr>optimizer_adafactor_decay_type = ''adam'', optimizer_adafactor_beta2 = 0.999,
         optimizer_adafactor_memory_exponent = 0.8, weight_dtype = ''float32'',
         optimizer_adafactor_multiply_by_parameter_scale = True, optimizer_adafactor_beta1 = 0,
         optimizer_adafactor_clipping_threshold = Some 1, optimizer_adafactor_factored = True,
         simulated_parameter_quantize_bits = None\<rparr> None = Inr opt
        \<and> decay_rate opt = adafactor_decay_rate_adam 0.999)
   \<and> (\<exists>opt. adafactor_optimizer_from_hparams
        \<lparr>optimizer_adafactor_decay_type = ''pow'', optimizer_adafactor_beta2 = 0.999,
         optimizer_adafactor_memory_exponent = 0.8, weight_dtype = ''float32'',
         optimizer_adafactor_multiply_by_parameter_scale = True, optimizer_adafactor_beta1 = 0,
         optimizer_adafactor_clipping_threshold = Some 1, optimizer_adafactor_factored = True,
         simulated_parameter_quantize_bits = None\<rparr> None = Inr opt
        \<and> decay_rate opt = adafactor_decay_rate_pow 0.8)"
  using factory_decay_type
          [of "\<lparr>optimizer_adafactor_decay_type = ''sgd'', optimizer_adafactor_beta2 = 0.999,
      optimizer_adafactor_memory_exponent = 0.8, weight_dtype = ''float32'',
      optimizer_adafactor_multiply_by_parameter_scale = True, optimizer_adafactor_beta1 = 0,
      optimizer_adafactor_clipping_threshold = Some 1, optimizer_adafactor_factored = True,
      simulated_parameter_quantize_bits = None\<rparr>" None]
        factory_decay_type
          [of "\<lparr>optimizer_adafactor_decay_type = ''adam'', optimizer_adafactor_beta2 = 0.999,
      optimizer_adafactor_memory_exponent = 0.8, weight_dtype = ''float32'',
      optimizer_adafactor_multiply_by_parameter_scale = True, optimizer_adafactor_beta1 = 0,
      optimizer_adafactor_clipping_threshold = Some 1, optimizer_adafactor_factored = True,
      simulated_parameter_quantize_bits = None\<rparr>" None]
        factory_decay_type
          [of "\<lparr>optimizer_adafactor_decay_type = ''pow'', optimizer_adafactor_beta2 = 0.999,
      optimizer_adafactor_memory_exponent = 0.8, weight_dtype = ''float32'',
      optimizer_adafactor_multiply_by_parameter_scale = True, optimizer_adafactor_beta1 = 0,
      optimizer_adafactor_clipping_threshold = Some 1, optimizer_adafactor_factored = True,
      simulated_parameter_quantize_bits = None\<rparr>" None]
  by simp

section \<open>Update clipping\<close>

lemma tmap_id: "tmap (\<lambda>v. v) x = x"
  by (simp add: tmap_def)

lemma sum_list_scaled_squares:
  "sum_list (map (\<lambda>v. (v / k)\<^sup>2) xs) = sum_list (map (\<lambda>v. v\<^sup>2) xs) / (k\<^sup>2 :: real)"
  by (induction xs) (simp_all add: power_divide add_divide_distrib)

lemma reduce_rms_scaled: "reduce_rms (tmap (\<lambda>v. v / k) x) = reduce_rms x / \<bar>k\<bar>"
proof -
  have "reduce_mean (tmap power2 (tmap (\<lambda>v. v / k) x)) = reduce_mean (tmap power2 x) / k\<^sup>2"
    by (simp add: reduce_mean_def mean_def tmap_def comp_def sum_list_scaled_squares)
  then show ?thesis
    by (simp add: reduce_rms_def real_sqrt_divide)
qed

text \<open>
  Claim C5: with a clipping threshold \<open>c \<ge> 1\<close>, the normalized update \<open>x\<close> is divided
  elementwise by \<open>max 1 (rms x / c)\<close>. When \<open>rms x > c\<close> the clipped update has
  root-mean-square exactly \<open>c\<close>; when \<open>rms x \<le> c\<close> it is \<open>x\<close>; and the ratio of any
  two elements is the same before and after (stated without division:
  \<open>y\<^sub>i * x\<^sub>j = y\<^sub>j * x\<^sub>i\<close>).
\<close>

theorem update_clipping:
  assumes "clipping_threshold opt = Some c" and "1 \<le> c"
  shows "clip opt x = tmap (\<lambda>v. v / max 1 (reduce_rms x / c)) x
       \<and> (c < reduce_rms x \<longrightarrow> reduce_rms (clip opt x) = c)
       \<and> (reduce_rms x \<le> c \<longrightarrow> clip opt x = x)
       \<and> (\<forall>i j. i < length (vals x) \<and> j < length (vals x)
             \<longrightarrow> vals (clip opt x) ! i * vals x ! j = vals (clip opt x) ! j * vals x ! i)"
proof -
  define k where "k = max 1 (reduce_rms x / c)"
  have c0: "0 < c" using assms(2) by simp
  have k1: "1 \<le> k" by (simp add: k_def)
  have form: "clip opt x = tmap (\<lambda>v. v / k) x"
    by (simp add: clip_def assms(1) k_def Let_def)
  have big: "reduce_rms (clip opt x) = c" if "c < reduce_rms x"
  proof -
    have r0: "0 < reduce_rms x" using that c0 by simp
    have "1 < reduce_rms x / c" using that c0 by simp
    then have kk: "k = reduce_rms x / c" by (simp add: k_def)
    have kpos: "0 < k" using k1 by simp
    have "reduce_rms (clip opt x) = reduce_rms x / \<bar>k\<bar>"
      unfolding form by (rule reduce_rms_scaled)
    also have "\<dots> = reduce_rms x / k" using kpos by simp
    also have "\<dots> = c" unfolding kk using r0 c0 by simp
    finally show ?thesis .
  qed
  have small: "clip opt x = x" if "reduce_rms x \<le> c"
  proof -
    have "reduce_rms x / c \<le> 1" using that c0 by simp
    then have "k = 1" by (simp add: k_def)
    then show ?thesis by (simp add: form tmap_id)
  qed
  have ratio: "vals (clip opt x) ! i * vals x ! j = vals (clip opt x) ! j * vals x ! i"
    if "i < length (vals x)" "j < length (vals x)" for i j
    using that by (simp add: form tmap_def)
  show ?thesis
    using form big small ratio unfolding k_def by blast
qed

text \<open>
  The theorem at the default threshold 1, for an update of root-mean-square 2 and one of
  root-mean-square 1/2.
\<close>

theorem update_clipping_witness:
  "clipping_threshold AdafactorOptimizer_default = Some 1 \<and> (1::real) \<le> 1
   \<and> 1 < reduce_rms \<lparr>shape = [2], vals = [2, 2]\<rparr>
   \<and> reduce_rms (clip AdafactorOptimizer_default \<lparr>shape = [2], vals = [2, 2]\<rparr>) = 1
   \<and> reduce_rms \<lparr>shape = [2], vals = [1 / 2, 1 / 2]\<rparr> \<le> 1
   \<and> clip AdafactorOptimizer_default \<lparr>shape = [2], vals = [1 / 2, 1 / 2]\<rparr>
       = \<lparr>shape = [2], vals = [1 / 2, 1 / 2]\<rparr>
   \<and> (0::nat) < length (vals \<lparr>shape = [2], vals = [2, 2 :: real]\<rparr>)
   \<and> (1::nat) < length (vals \<lparr>shape = [2], vals = [2, 2 :: real]\<rparr>)
   \<and> vals (clip AdafactorOptimizer_default \<lparr>shape = [2], vals = [2, 2]\<rparr>) ! 0
         * vals \<lparr>shape = [2], vals = [2, 2]\<rparr> ! 1
       = vals (clip AdafactorOptimizer_default \<lparr>shape = [2], vals = [2, 2]\<rparr>) ! 1
         * vals \<lparr>shape = [2], vals = [2, 2]\<rparr> ! 0"
proof -
  have t: "clipping_threshold AdafactorOptimizer_default = Some 1"
    by (simp add: AdafactorOptimizer_default_def AdafactorOptimizer_def)
  have one: "(1::real) \<le> 1"
    by simp
  have r2: "reduce_rms \<lparr>shape = [2], vals = [2, 2]\<rparr> = 2"
    by (simp add: reduce_rms_def reduce_mean_def mean_def tmap_def)
  have rh: "reduce_rms \<lparr>shape = [2], vals = [1 / 2, 1 / 2]\<rparr> = 1 / 2"
    by (simp add: reduce_rms_def reduce_mean_def mean_def tmap_def power_divide real_sqrt_divide)
  have big: "1 < reduce_rms \<lparr>shape = [2], vals = [2, 2]\<rparr>"
    by (simp add: r2)
  have small: "reduce_rms \<lparr>shape = [2], vals = [1 / 2, 1 / 2]\<rparr> \<le> 1"
    by (simp add: rh)
  have len: "(0::nat) < length (vals \<lparr>shape = [2], vals = [2, 2 :: real]\<rparr>)"
    "(1::nat) < length (vals \<lparr>shape = [2], vals = [2, 2 :: real]\<rparr>)"
    by simp_all
  show ?thesis
    using t one big small len
      update_clipping [OF t one, of "\<lparr>shape = [2], vals = [2, 2]\<rparr>"]
      update_clipping [OF t one, of "\<lparr>shape = [2], vals = [1 / 2, 1 / 2]\<rparr>"]
    by blast
qed

section \<open>Rounding\<close>

text \<open>
  What the two roundings do: a positive number stays positive and within a factor 2, and a
  number within half a unit in the last place of a representable one is rounded to it.
\<close>

lemma floor_log2_eq:
  assumes "2 powr real_of_int k \<le> x" and "x < 2 powr (real_of_int k + 1)"
  shows "\<lfloor>log 2 x\<rfloor> = k"
proof -
  have "0 < 2 powr real_of_int k"
    by simp
  then have x0: "0 < x"
    using assms(1) by linarith
  have "real_of_int k \<le> log 2 x"
    using assms(1) x0 by (simp add: le_log_iff)
  moreover have "log 2 x < real_of_int k + 1"
    using assms(2) x0 by (simp add: log_less_iff)
  ultimately show ?thesis
    by (simp add: floor_eq_iff)
qed

lemma round_half_even_near:
  assumes "\<bar>r - real_of_int n\<bar> < 1 / 2"
  shows "round_half_even r = n"
proof (cases "real_of_int n \<le> r")
  case True
  then have "\<lfloor>r\<rfloor> = n"
    using assms by (auto simp add: floor_eq_iff)
  then show ?thesis
    using assms True by (simp add: round_half_even_def Let_def)
next
  case False
  then have f: "\<lfloor>r\<rfloor> = n - 1"
    using assms by (auto simp add: floor_eq_iff)
  have "1 / 2 < r - real_of_int (n - 1)"
    using assms False by simp
  then show ?thesis
    using f by (simp add: round_half_even_def Let_def)
qed

lemma round_half_even_bounds:
  "r - 1 / 2 \<le> real_of_int (round_half_even r)"
  "real_of_int (round_half_even r) \<le> r + 1 / 2"
proof -
  have a: "real_of_int \<lfloor>r\<rfloor> \<le> r" and b: "r < real_of_int \<lfloor>r\<rfloor> + 1"
    by linarith+
  show "r - 1 / 2 \<le> real_of_int (round_half_even r)"
    using a b by (simp add: round_half_even_def Let_def) linarith
  show "real_of_int (round_half_even r) \<le> r + 1 / 2"
    using a b by (simp add: round_half_even_def Let_def) linarith
qed

lemma round_scaled_bounds:
  assumes "0 < x" and "0 \<le> e"
  shows "x / 2 \<le> real_of_int (round_half_even (x / 2 powr (real_of_int \<lfloor>log 2 x\<rfloor> - e)))
                    * 2 powr (real_of_int \<lfloor>log 2 x\<rfloor> - e)"
    and "real_of_int (round_half_even (x / 2 powr (real_of_int \<lfloor>log 2 x\<rfloor> - e)))
           * 2 powr (real_of_int \<lfloor>log 2 x\<rfloor> - e) \<le> 2 * x"
proof -
  define k where "k = \<lfloor>log 2 x\<rfloor>"
  define u where "u = 2 powr (real_of_int k - e)"
  have u0: "0 < u"
    by (simp add: u_def)
  have "real_of_int k \<le> log 2 x"
    by (simp add: k_def)
  then have "2 powr real_of_int k \<le> x"
    using assms(1) by (simp add: le_log_iff)
  moreover have "u \<le> 2 powr real_of_int k"
    unfolding u_def using assms(2) by (intro powr_mono) simp_all
  ultimately have "u \<le> x"
    by linarith
  then have r1: "1 \<le> x / u"
    using u0 by (simp add: field_simps)
  define r where "r = x / u"
  have lo: "r / 2 \<le> real_of_int (round_half_even r)"
    using round_half_even_bounds(1) [of r] r1 unfolding r_def [symmetric] by linarith
  have hi: "real_of_int (round_half_even r) \<le> 2 * r"
    using round_half_even_bounds(2) [of r] r1 unfolding r_def [symmetric] by linarith
  have ru: "r * u = x"
    using u0 by (simp add: r_def)
  have "r / 2 * u \<le> real_of_int (round_half_even r) * u"
    using lo u0 by (intro mult_right_mono) simp_all
  then have "x / 2 \<le> real_of_int (round_half_even r) * u"
    using ru by (simp add: field_simps)
  then show "x / 2 \<le> real_of_int (round_half_even (x / 2 powr (real_of_int \<lfloor>log 2 x\<rfloor> - e)))
                    * 2 powr (real_of_int \<lfloor>log 2 x\<rfloor> - e)"
    by (simp add: r_def u_def k_def)
  have "real_of_int (round_half_even r) * u \<le> 2 * r * u"
    using hi u0 by (intro mult_right_mono) simp_all
  then have "real_of_int (round_half_even r) * u \<le> 2 * x"
    using ru by (simp add: field_simps)
  then show "real_of_int (round_half_even (x / 2 powr (real_of_int \<lfloor>log 2 x\<rfloor> - e)))
           * 2 powr (real_of_int \<lfloor>log 2 x\<rfloor> - e) \<le> 2 * x"
    by (simp add: r_def u_def k_def)
qed

lemma to_float32_bounds:
  assumes "0 < x"
  shows "x / 2 \<le> to_float32 x" and "to_float32 x \<le> 2 * x" and "0 < to_float32 x"
proof -
  show a: "x / 2 \<le> to_float32 x"
    using round_scaled_bounds(1) [OF assms, of 23] assms by (simp add: to_float32_def Let_def)
  show "to_float32 x \<le> 2 * x"
    using round_scaled_bounds(2) [OF assms, of 23] assms by (simp add: to_float32_def Let_def)
  show "0 < to_float32 x"
    using a assms by linarith
qed

lemma to_bfloat16_bounds:
  assumes "0 < x"
  shows "x / 2 \<le> to_bfloat16 x" and "to_bfloat16 x \<le> 2 * x" and "0 < to_bfloat16 x"
proof -
  show a: "x / 2 \<le> to_bfloat16 x"
    using round_scaled_bounds(1) [OF assms, of 7] assms by (simp add: to_bfloat16_def Let_def)
  show "to_bfloat16 x \<le> 2 * x"
    using round_scaled_bounds(2) [OF assms, of 7] assms by (simp add: to_bfloat16_def Let_def)
  show "0 < to_bfloat16 x"
    using a assms by linarith
qed

lemma to_float32_absorb:
  assumes "2 powr real_of_int k \<le> x" and "x < 2 powr (real_of_int k + 1)"
    and "\<bar>x / 2 powr (real_of_int k - 23) - real_of_int n\<bar> < 1 / 2"
  shows "to_float32 x = real_of_int n * 2 powr (real_of_int k - 23)"
proof -
  have "0 < 2 powr real_of_int k"
    by simp
  then have x0: "0 < x"
    using assms(1) by linarith
  have k: "\<lfloor>log 2 x\<rfloor> = k"
    using assms(1,2) by (rule floor_log2_eq)
  show ?thesis
    using x0 by (simp add: to_float32_def Let_def k round_half_even_near [OF assms(3)])
qed

lemma to_float32_near_one:
  assumes "0 < d" and "d < 1 / 2 ^ 25"
  shows "to_float32 (1 - d) = 1"
proof -
  have p: "2 powr (- 24) = (1 / 2 ^ 24 :: real)" "2 powr (- 1) = (1 / 2 :: real)"
    by (simp_all add: powr_minus_divide)
  have "to_float32 (1 - d) = real_of_int (2 ^ 24) * 2 powr (real_of_int (- 1) - 23)"
  proof (rule to_float32_absorb)
    show "2 powr real_of_int (- 1) \<le> 1 - d"
      using assms by (simp add: p)
    show "1 - d < 2 powr (real_of_int (- 1) + 1)"
      using assms by simp
    show "\<bar>(1 - d) / 2 powr (real_of_int (- 1) - 23) - real_of_int (2 ^ 24)\<bar> < 1 / 2"
      using assms by (simp add: p field_simps)
  qed
  then show ?thesis
    by (simp add: p)
qed

lemma to_float32_zero: "to_float32 0 = 0"
  by (simp add: to_float32_def)


lemma to_float32_constant: "0 < to_float32 (1 / 10 ^ 30)" "to_float32 (1 / 10 ^ 30) \<le> 2 / 10 ^ 30"
  using to_float32_bounds(2,3) [of "1 / 10 ^ 30"] by simp_all



section \<open>Momentum\<close>

lemma get_slot_other_m:
  "n \<noteq> ''m'' \<Longrightarrow> get_slot (s((var_name var, ''m'') := m)) var n = get_slot s var n"
  by (simp add: get_slot_def)

lemma second_moment_slot_m:
  "second_moment opt (s((var_name var, ''m'') := m)) var grad d = second_moment opt s var grad d"
proof -
  have g: "get_slot (s((var_name var, ''m'') := m)) var ''vr'' = get_slot s var ''vr''"
    "get_slot (s((var_name var, ''m'') := m)) var ''vc'' = get_slot s var ''vc''"
    "get_slot (s((var_name var, ''m'') := m)) var ''v'' = get_slot s var ''v''"
    by (simp_all add: get_slot_other_m)
  show ?thesis
    unfolding second_moment_def g by (rule refl)
qed

lemma second_moment_targets:
  "second_moment opt s var grad d = Inr (updates, x) \<Longrightarrow> map_of updates (Slot ''m'') = None \<and> map_of updates Variable = None"
  by (auto simp add: second_moment_def Let_def split: if_splits option.splits)

lemma momentum_absent: "beta1 opt = 0 \<Longrightarrow> momentum opt s var subtrahend = Inr (subtrahend, [])"
  by (simp add: momentum_def)

lemma create_slots_var_no_m:
  "beta1 opt = 0 \<Longrightarrow> create_slots_var opt var s (nm, ''m'') = s (nm, ''m'')"
  by (simp add: create_slots_var_def Let_def get_or_make_slot_def split: option.splits)

lemma create_slots_no_m:
  "beta1 opt = 0 \<Longrightarrow> create_slots opt var_list s (nm, ''m'') = s (nm, ''m'')"
  unfolding create_slots_def
  by (induction var_list arbitrary: s) (simp_all add: create_slots_var_no_m)

lemma call_factored_succeeds:
  "\<exists>updates. resource_apply_dense AdafactorOptimizer_default
      (create_slots AdafactorOptimizer_default
         [\<lparr>var_name = ''w'', var_dtype = Float32, var_value = zeros [2, 3]\<rparr>] (\<lambda>k. None))
      0 \<lparr>shape = [2, 3], vals = [1, 1, 1, 1, 1, 1]\<rparr>
      \<lparr>var_name = ''w'', var_dtype = Float32, var_value = zeros [2, 3]\<rparr> = Inr updates"
  by (simp add: resource_apply_dense_def old_val_def second_moment_def has_shape_def
      should_use_factored_second_moment_estimate_def get_slot_def momentum_def new_val_def
      create_slots_def create_slots_var_def get_or_make_slot_def zeros_slot_def
      AdafactorOptimizer_default_def AdafactorOptimizer_def Let_def zeros_def)

text \<open>
  Claim C8: when \<open>beta1\<close> is 0, \<open>_create_slots\<close> leaves the slot \<open>m\<close> of every
  variable as it was (it creates none); the result of the dense update does not depend on
  the content of the slot \<open>m\<close> (it is not read); the update writes nothing to the slot
  \<open>m\<close>; and the updates, the new variable value and the accumulator values, are equal to
  those of the update rule with the momentum branch absent.
\<close>

theorem no_momentum_when_beta1_zero:
  assumes "beta1 opt = 0"
  shows "create_slots opt var_list s (nm, ''m'') = s (nm, ''m'')
       \<and> resource_apply_dense opt (s((var_name var, ''m'') := m)) gs grad var
           = resource_apply_dense opt s gs grad var
       \<and> written (resource_apply_dense opt s gs grad var) (Slot ''m'') = None
       \<and> resource_apply_dense opt s gs grad var
           = resource_apply_dense_without_momentum opt s gs grad var"
proof -
  have eq: "resource_apply_dense opt s gs grad var
            = resource_apply_dense_without_momentum opt s gs grad var" for s
    by (simp add: resource_apply_dense_def resource_apply_dense_without_momentum_def
        momentum_absent [OF assms] Let_def split: sum.splits prod.splits)
  have unread: "resource_apply_dense_without_momentum opt (s((var_name var, ''m'') := m)) gs grad var
                = resource_apply_dense_without_momentum opt s gs grad var"
    unfolding resource_apply_dense_without_momentum_def second_moment_slot_m by (rule refl)
  have unwritten: "written (resource_apply_dense_without_momentum opt s gs grad var) (Slot ''m'') = None"
    by (auto simp add: written_def resource_apply_dense_without_momentum_def Let_def
        dest: second_moment_targets split: sum.splits prod.splits)
  show ?thesis
    using create_slots_no_m [OF assms] unread unwritten by (simp add: eq)
qed

text \<open>
  The theorem at the optimizer with default arguments, whose \<open>beta1\<close> is 0, for a
  variable of shape \<open>[2, 3]\<close> with the slots that \<open>_create_slots\<close> makes for it and a
  gradient of ones: the update succeeds, with the same updates whether or not a slot \<open>m\<close>
  is put there, and the same as without the momentum branch.
\<close>

theorem no_momentum_when_beta1_zero_witness:
  "(let opt = AdafactorOptimizer_default;
        var = \<lparr>var_name = ''w'', var_dtype = Float32, var_value = zeros [2, 3]\<rparr>;
        grad = \<lparr>shape = [2, 3], vals = [1, 1, 1, 1, 1, 1]\<rparr>;
        s = create_slots opt [var] (\<lambda>k. None)
    in beta1 opt = 0
       \<and> s (''w'', ''m'') = None
       \<and> (\<exists>updates. resource_apply_dense opt s 0 grad var = Inr updates
             \<and> resource_apply_dense opt (s((var_name var, ''m'') := Some (zeros [2, 3]))) 0 grad var
                 = Inr updates
             \<and> resource_apply_dense_without_momentum opt s 0 grad var = Inr updates
             \<and> map_of updates (Slot ''m'') = None))"
proof -
  define var where "var = \<lparr>var_name = ''w'', var_dtype = Float32, var_value = zeros [2, 3]\<rparr>"
  define grad where "grad = \<lparr>shape = [2, 3], vals = [1, 1, 1, 1, 1, 1 :: real]\<rparr>"
  define s where "s = create_slots AdafactorOptimizer_default [var] (\<lambda>k. None)"
  have b: "beta1 AdafactorOptimizer_default = 0"
    by (simp add: AdafactorOptimizer_default_def AdafactorOptimizer_def)
  have created: "s (''w'', ''m'') = None"
    using no_momentum_when_beta1_zero [OF b, of "[var]" "\<lambda>k. None" "''w''"]
    by (simp add: s_def)
  obtain updates where u: "resource_apply_dense AdafactorOptimizer_default s 0 grad var = Inr updates"
    using call_factored_succeeds unfolding s_def var_def grad_def by blast
  note t = no_momentum_when_beta1_zero [OF b, of "[var]" s "''w''" var "Some (zeros [2, 3])" 0 grad]
  have unread: "resource_apply_dense AdafactorOptimizer_default
                  (s((var_name var, ''m'') := Some (zeros [2, 3]))) 0 grad var = Inr updates"
    using t u by simp
  have same: "resource_apply_dense_without_momentum AdafactorOptimizer_default s 0 grad var
              = Inr updates"
    using t u by simp
  have "written (resource_apply_dense AdafactorOptimizer_default s 0 grad var) (Slot ''m'') = None"
    using t by blast
  then have unwritten: "map_of updates (Slot ''m'') = None"
    by (simp add: u written_def)
  show ?thesis
    unfolding Let_def var_def [symmetric] grad_def [symmetric] s_def [symmetric]
    using b created u unread same unwritten by blast
qed

section \<open>The rates used by the dense update\<close>




lemma perturbation_pos:
  assumes "0 < grad_squared_mean opt grad"
  shows "0 < perturbation opt grad"
proof -
  have "0 < grad_squared_mean opt grad * to_float32 (1 / 10 ^ 30)"
    using assms to_float32_constant(1) by (rule mult_pos_pos)
  then show ?thesis
    unfolding perturbation_def by (rule to_float32_bounds(3))
qed

lemma perturbation_upper:
  assumes "0 \<le> grad_squared_mean opt grad"
  shows "perturbation opt grad \<le> grad_squared_mean opt grad * 4 / 10 ^ 30"
proof (cases "grad_squared_mean opt grad = 0")
  case True
  then show ?thesis
    by (simp add: perturbation_def to_float32_zero)
next
  case False
  then have g: "0 < grad_squared_mean opt grad"
    using assms by simp
  have pos: "0 < grad_squared_mean opt grad * to_float32 (1 / 10 ^ 30)"
    using g to_float32_constant(1) by (intro mult_pos_pos)
  have "perturbation opt grad \<le> 2 * (grad_squared_mean opt grad * to_float32 (1 / 10 ^ 30))"
    unfolding perturbation_def using pos by (rule to_float32_bounds(2))
  also have "\<dots> \<le> 2 * (grad_squared_mean opt grad * (2 / 10 ^ 30))"
    using g to_float32_constant(2) by (intro mult_left_mono) simp_all
  finally show ?thesis
    by simp
qed


lemma resource_apply_dense_Inr:
  assumes "resource_apply_dense opt s gs grad var = Inr updates"
  shows "\<exists>old acc x subtrahend m_updates v.
           old_val opt var = Inr old
           \<and> second_moment opt s var grad (used_decay_rate opt gs grad) = Inr (acc, x)
           \<and> momentum opt s var (tmap ((*) (used_update_scale opt gs grad old)) (clip opt x))
               = Inr (subtrahend, m_updates)
           \<and> new_val opt gs var old subtrahend = Inr v
           \<and> updates = (Variable, v) # acc @ m_updates"
  using assms
  by (auto simp add: resource_apply_dense_def Let_def split: sum.splits prod.splits)








section \<open>The noise of a step\<close>




section \<open>Simulated quantization of the written value\<close>










lemma new_val_quantized:
  assumes "simulated_quantize_bits opt = Some b" and "b \<noteq> 0"
    and "new_val opt gs var old subtrahend = Inr v"
  shows "var_dtype var = Float32
         \<and> v = simulated_quantize (tzip (-) (var_value var) subtrahend) b (quantization_noise opt gs)"
proof -
  have "var_dtype var \<noteq> BFloat16"
    using assms by (auto simp add: new_val_def Let_def split: sum.splits option.splits if_splits)
  then have f: "var_dtype var = Float32"
    by (cases "var_dtype var") simp_all
  then show ?thesis
    using assms by (simp add: new_val_def Let_def)
qed




section \<open>Inputs that the update rejects\<close>

text \<open>
  A gradient whose shape is not the variable's, a slot whose shape is not the one
  \<open>_create_slots\<close> gives it, and a bfloat16 variable under simulated quantization make
  the update fail.
\<close>

lemma gradient_shape_checked:
  assumes "shape grad \<noteq> shape (var_value var)"
  shows "\<exists>e. resource_apply_dense opt s gs grad var = Inl e"
  using assms
  by (auto simp add: resource_apply_dense_def second_moment_def has_shape_def Let_def
      split: sum.splits)

lemma slot_shape_checked:
  assumes "\<not> factored opt" and "s (var_name var, ''v'') = Some v"
    and "shape v \<noteq> shape (var_value var)"
  shows "\<exists>e. resource_apply_dense opt s gs grad var = Inl e"
  using assms
  by (auto simp add: resource_apply_dense_def second_moment_def has_shape_def Let_def
      get_slot_def should_use_factored_second_moment_estimate_def split: sum.splits)

lemma quantized_bfloat16_rejected:
  assumes "simulated_quantize_bits opt = Some b" and "b \<noteq> 0" and "var_dtype var = BFloat16"
  shows "\<exists>e. resource_apply_dense opt s gs grad var = Inl e"
proof (cases "resource_apply_dense opt s gs grad var")
  case (Inl e)
  then show ?thesis
    by blast
next
  case (Inr updates)
  from resource_apply_dense_Inr [OF Inr] obtain old subtrahend v where
    "new_val opt gs var old subtrahend = Inr v"
    by blast
  from new_val_quantized [OF assms(1,2) this] assms(3) show ?thesis
    by simp
qed

section \<open>One update of a 2 by 2 variable\<close>

lemma second_moment_example:
  assumes "mixing_rate_of d = 1" and "factored opt" and "epsilon1 opt = 1 / 10 ^ 30"
    and "s (nm, ''vr'') = Some (zeros [2])" and "s (nm, ''vc'') = Some (zeros [2])"
  shows "second_moment opt s \<lparr>var_name = nm, var_dtype = dt, var_value = zeros [2, 2]\<rparr>
           \<lparr>shape = [2, 2], vals = [1, 1, 1, 1]\<rparr> d
         = Inr ([(Slot ''vr'', \<lparr>shape = [2], vals = [1 + 1 / 10 ^ 30, 1 + 1 / 10 ^ 30]\<rparr>),
                 (Slot ''vc'', \<lparr>shape = [2], vals = [1 + 1 / 10 ^ 30, 1 + 1 / 10 ^ 30]\<rparr>)],
                \<lparr>shape = [2, 2],
                 vals = [1 / sqrt (1 + 1 / 10 ^ 30), 1 / sqrt (1 + 1 / 10 ^ 30),
                         1 / sqrt (1 + 1 / 10 ^ 30), 1 / sqrt (1 + 1 / 10 ^ 30)]\<rparr>)"
  using assms
  by (simp add: second_moment_def has_shape_def zeros_def get_slot_def grad_squared_def
      should_use_factored_second_moment_estimate_def tmap_def tzip_def reduce_mean_last_def
      reduce_mean_second_last_def mean_def div_keepdims_def mul_expand_last_def
      mul_expand_second_last_def rsqrt_def Let_def numeral_2_eq_2)

lemma example_slots:
  "create_slots
     (AdafactorOptimizer True None None 0 None True None None False ''Adafactor''
        (1 / 10 ^ 30) (1 / 10 ^ 3))
     [\<lparr>var_name = ''w'', var_dtype = Float32, var_value = zeros [2, 2]\<rparr>] (\<lambda>k. None)
     (''w'', n)
   = (if n = ''vr'' \<or> n = ''vc'' then Some (zeros [2]) else None)"
  by (simp add: create_slots_def create_slots_var_def get_or_make_slot_def zeros_slot_def
      should_use_factored_second_moment_estimate_def AdafactorOptimizer_def Let_def zeros_def)

lemma example_mean_square:
  "epsilon1 opt = 1 / 10 ^ 30 \<Longrightarrow>
   grad_squared_mean opt \<lparr>shape = [2, 2], vals = [1, 1, 1, 1]\<rparr> = 1 + 1 / 10 ^ 30"
  by (simp add: grad_squared_mean_def grad_squared_def reduce_mean_def mean_def tmap_def)

text \<open>
  Claim C1: a variable of shape \<open>[2, 2]\<close>, all zeros, with the slots that
  \<open>_create_slots\<close> makes for it; the gradient \<open>[[1, 1], [1, 1]]\<close>; step 0; the default
  \<open>epsilon1 = 1e-30\<close> and \<open>epsilon2 = 1e-3\<close>; no clipping, \<open>beta1 = 0\<close>, no encoding;
  factored, with \<open>multiply_by_parameter_scale\<close>. The schedule gives the decay rate
  \<open>1 - 1 powr (-0.8) = 0\<close> and the mixing rate of the call is 1. The update succeeds; the
  row and the column accumulator it writes are the mixing rate times the mean of
  \<open>grad\<^sup>2 + epsilon1\<close> along the last and the second-to-last axis, both \<open>[a, a]\<close> with
  \<open>1 \<le> a \<le> 1 + 1e-30\<close>; and the four elements of the new value are one and the same
  negative number, between \<open>-3e-5\<close> and \<open>-4e-6\<close>.
\<close>

theorem dense_update_example:
  "(let opt = AdafactorOptimizer True None None 0 None True None None False ''Adafactor''
                (1 / 10 ^ 30) (1 / 10 ^ 3);
        var = \<lparr>var_name = ''w'', var_dtype = Float32, var_value = zeros [2, 2]\<rparr>;
        grad = \<lparr>shape = [2, 2], vals = [1, 1, 1, 1]\<rparr>;
        s = create_slots opt [var] (\<lambda>k. None);
        g2 = tmap (\<lambda>g. g\<^sup>2 + epsilon1 opt) grad;
        mixing_rate = mixing_rate_of (used_decay_rate opt 0 grad)
    in decay_rate opt 0 = adafactor_decay_rate_pow 0.8 0
       \<and> decay_rate opt 0 = 0
       \<and> mixing_rate = 1
       \<and> (\<exists>updates a v.
             resource_apply_dense opt s 0 grad var = Inr updates
             \<and> map_of updates (Slot ''vr'')
                 = Some (tmap ((*) mixing_rate) (reduce_mean_last False g2))
             \<and> map_of updates (Slot ''vc'')
                 = Some (tmap ((*) mixing_rate) (reduce_mean_second_last g2))
             \<and> map_of updates (Slot ''vr'') = Some \<lparr>shape = [2], vals = [a, a]\<rparr>
             \<and> map_of updates (Slot ''vc'') = Some \<lparr>shape = [2], vals = [a, a]\<rparr>
             \<and> 1 \<le> a \<and> a \<le> 1 + 1 / 10 ^ 30
             \<and> map_of updates Variable = Some \<lparr>shape = [2, 2], vals = [v, v, v, v]\<rparr>
             \<and> v < 0 \<and> - (3 / 10 ^ 5) < v \<and> v < - (4 / 10 ^ 6)))"
proof -
  define opt where "opt = AdafactorOptimizer True None None 0 None True None None False
    ''Adafactor'' (1 / 10 ^ 30) (1 / 10 ^ 3)"
  define var where "var = \<lparr>var_name = ''w'', var_dtype = Float32, var_value = zeros [2, 2]\<rparr>"
  define grad where "grad = \<lparr>shape = [2, 2], vals = [1, 1, 1, 1 :: real]\<rparr>"
  define s where "s = create_slots opt [var] (\<lambda>k. None)"
  define g2 where "g2 = tmap (\<lambda>g. g\<^sup>2 + epsilon1 opt) grad"
  define d where "d = used_decay_rate opt 0 grad"
  define U where "U = used_update_scale opt 0 grad (zeros [2, 2])"
  define c :: real where "c = 1 / sqrt (1 + 1 / 10 ^ 30)"
  have fields: "epsilon1 opt = 1 / 10 ^ 30" "factored opt" "beta1 opt = 0"
    "clipping_threshold opt = None" "multiply_by_parameter_scale opt"
    "simulated_quantize_bits opt = None" "epsilon2 opt = 1 / 10 ^ 3"
    "decay_rate opt = decay_rate_default" "learning_rate opt = learning_rate_default True"
    by (simp_all add: opt_def AdafactorOptimizer_def)
  have sched: "decay_rate opt 0 = adafactor_decay_rate_pow 0.8 0"
    by (simp add: fields decay_rate_default_def)
  have zero: "decay_rate opt 0 = 0"
    by (simp add: fields decay_rate_default_def adafactor_decay_rate_pow_def step_num_def)
  have m: "grad_squared_mean opt grad = 1 + 1 / 10 ^ 30"
    unfolding grad_def using fields(1) by (rule example_mean_square)
  have p0: "0 < perturbation opt grad"
    by (rule perturbation_pos) (simp add: m)
  have "perturbation opt grad \<le> grad_squared_mean opt grad * 4 / 10 ^ 30"
    by (rule perturbation_upper) (simp add: m)
  then have p1: "perturbation opt grad \<le> 5 / 10 ^ 30"
    by (simp add: m)
  have dd: "d = to_float32 (perturbation opt grad)"
    by (simp add: d_def used_decay_rate_def zero)
  have d0: "0 < d"
    unfolding dd using p0 by (rule to_float32_bounds(3))
  have "d \<le> 2 * perturbation opt grad"
    unfolding dd using p0 by (rule to_float32_bounds(2))
  then have d1: "d < 1 / 2 ^ 25"
    using p1 by simp
  have mix: "mixing_rate_of d = 1"
    unfolding mixing_rate_of_def using d0 d1 by (rule to_float32_near_one)
  have slots: "s (''w'', ''vr'') = Some (zeros [2])" "s (''w'', ''vc'') = Some (zeros [2])"
    unfolding s_def opt_def var_def example_slots by simp_all
  have sm: "second_moment opt s var grad d
         = Inr ([(Slot ''vr'', \<lparr>shape = [2], vals = [1 + 1 / 10 ^ 30, 1 + 1 / 10 ^ 30]\<rparr>),
                 (Slot ''vc'', \<lparr>shape = [2], vals = [1 + 1 / 10 ^ 30, 1 + 1 / 10 ^ 30]\<rparr>)],
                \<lparr>shape = [2, 2], vals = [c, c, c, c]\<rparr>)"
    unfolding var_def grad_def c_def
    using mix fields(2) fields(1) slots by (rule second_moment_example)
  have old: "old_val opt var = Inr (zeros [2, 2])"
    by (simp add: old_val_def var_def)
  have call: "resource_apply_dense opt s 0 grad var
        = Inr [(Variable, \<lparr>shape = [2, 2], vals = [- (U * c), - (U * c), - (U * c), - (U * c)]\<rparr>),
               (Slot ''vr'', \<lparr>shape = [2], vals = [1 + 1 / 10 ^ 30, 1 + 1 / 10 ^ 30]\<rparr>),
               (Slot ''vc'', \<lparr>shape = [2], vals = [1 + 1 / 10 ^ 30, 1 + 1 / 10 ^ 30]\<rparr>)]"
    unfolding resource_apply_dense_def old d_def [symmetric] U_def [symmetric] sum.case sm
      prod.case Let_def
    by (simp add: clip_def momentum_def new_val_def fields tmap_def tzip_def var_def zeros_def
        numeral_eq_Suc)
  have row_means: "tmap ((*) (mixing_rate_of d)) (reduce_mean_last False g2)
              = \<lparr>shape = [2], vals = [1 + 1 / 10 ^ 30, 1 + 1 / 10 ^ 30]\<rparr>"
    unfolding mix
    by (simp add: g2_def grad_def fields tmap_def reduce_mean_last_def mean_def Let_def
        numeral_2_eq_2)
  have col_means: "tmap ((*) (mixing_rate_of d)) (reduce_mean_second_last g2)
              = \<lparr>shape = [2], vals = [1 + 1 / 10 ^ 30, 1 + 1 / 10 ^ 30]\<rparr>"
    unfolding mix
    by (simp add: g2_def grad_def fields tmap_def reduce_mean_second_last_def mean_def Let_def
        numeral_2_eq_2)
  have rms0: "reduce_rms (zeros [2, 2]) = 0"
    by (simp add: reduce_rms_def reduce_mean_def mean_def tmap_def zeros_def sum_list_replicate)
  have scaled: "scaled_update_scale opt 0 (zeros [2, 2]) = 1 / 10 ^ 5"
    by (simp add: scaled_update_scale_def fields parameter_scale_def rms0
        learning_rate_default_def step_num_def rsqrt_def Let_def)
  define S where "S = scaled_update_scale opt 0 (zeros [2, 2]) + perturbation opt grad"
  have S0: "1 / 10 ^ 5 < S" and S1: "S \<le> 1 / 10 ^ 5 + 5 / 10 ^ 30"
    using p0 p1 by (simp_all add: S_def scaled)
  have Sp: "0 < S"
    using S0 by (simp add: less_trans [OF _ S0])
  have US: "U = to_float32 S"
    by (simp add: U_def used_update_scale_def S_def)
  have Ulo: "S / 2 \<le> U" and Uhi: "U \<le> 2 * S"
    unfolding US using Sp by (rule to_float32_bounds(1), rule to_float32_bounds(2))
  have U0: "0 < U"
    using Ulo Sp by linarith
  have g1: "(1 :: real) \<le> sqrt (1 + 1 / 10 ^ 30)"
    by (rule real_sqrt_ge_one) simp
  have g2': "sqrt (1 + 1 / 10 ^ 30) \<le> (1 + 1 / 10 ^ 30 :: real)"
    by (rule real_le_lsqrt) (simp_all add: power2_eq_square)
  have c1: "c \<le> 1"
    using g1 by (simp add: c_def)
  have c2: "9 / 10 \<le> c"
  proof -
    have "sqrt (1 + 1 / 10 ^ 30) \<le> (10 / 9 :: real)"
      using g2' by simp
    then have "1 / (10 / 9) \<le> 1 / sqrt (1 + 1 / 10 ^ 30)"
      using g1 by (intro divide_left_mono) simp_all
    then show ?thesis
      by (simp add: c_def)
  qed
  have c0: "0 < c"
    using c2 by linarith
  have S0': "1 / 100000 < S" and S1': "S \<le> 1 / 100000 + 1 / 1000000"
    using S0 S1 by simp_all
  have "U * c \<le> U * 1"
    using c1 U0 by (intro mult_left_mono) simp_all
  then have "U * c < 3 / 100000"
    using Uhi S1' by linarith
  then have hi: "U * c < 3 / 10 ^ 5"
    by simp
  have "U * (9 / 10) \<le> U * c"
    using c2 U0 by (intro mult_left_mono) simp_all
  then have "4 / 1000000 < U * c"
    using Ulo S0' by linarith
  then have lo: "4 / 10 ^ 6 < U * c"
    by simp
  have neg: "- (U * c) < 0" "- (3 / 10 ^ 5) < - (U * c)" "- (U * c) < - (4 / 10 ^ 6)"
    using U0 c0 hi lo by simp_all
  have acc: "(1 :: real) \<le> 1 + 1 / 10 ^ 30" "(1 + 1 / 10 ^ 30 :: real) \<le> 1 + 1 / 10 ^ 30"
    by simp_all
  have ex: "\<exists>updates a v.
             resource_apply_dense opt s 0 grad var = Inr updates
             \<and> map_of updates (Slot ''vr'')
                 = Some (tmap ((*) (mixing_rate_of d)) (reduce_mean_last False g2))
             \<and> map_of updates (Slot ''vc'')
                 = Some (tmap ((*) (mixing_rate_of d)) (reduce_mean_second_last g2))
             \<and> map_of updates (Slot ''vr'') = Some \<lparr>shape = [2], vals = [a, a]\<rparr>
             \<and> map_of updates (Slot ''vc'') = Some \<lparr>shape = [2], vals = [a, a]\<rparr>
             \<and> 1 \<le> a \<and> a \<le> 1 + 1 / 10 ^ 30
             \<and> map_of updates Variable = Some \<lparr>shape = [2, 2], vals = [v, v, v, v]\<rparr>
             \<and> v < 0 \<and> - (3 / 10 ^ 5) < v \<and> v < - (4 / 10 ^ 6)"
  proof -
    define ups where "ups =
      [(Variable, \<lparr>shape = [2, 2], vals = [- (U * c), - (U * c), - (U * c), - (U * c)]\<rparr>),
       (Slot ''vr'', \<lparr>shape = [2], vals = [1 + 1 / 10 ^ 30, 1 + 1 / 10 ^ 30 :: real]\<rparr>),
       (Slot ''vc'', \<lparr>shape = [2], vals = [1 + 1 / 10 ^ 30, 1 + 1 / 10 ^ 30]\<rparr>)]"
    have a: "resource_apply_dense opt s 0 grad var = Inr ups"
      unfolding ups_def by (rule call)
    have b: "map_of ups (Slot ''vr'')
             = Some \<lparr>shape = [2], vals = [1 + 1 / 10 ^ 30, 1 + 1 / 10 ^ 30]\<rparr>"
      "map_of ups (Slot ''vc'')
             = Some \<lparr>shape = [2], vals = [1 + 1 / 10 ^ 30, 1 + 1 / 10 ^ 30]\<rparr>"
      "map_of ups Variable
             = Some \<lparr>shape = [2, 2], vals = [- (U * c), - (U * c), - (U * c), - (U * c)]\<rparr>"
      by (simp_all add: ups_def)
    show ?thesis
      unfolding row_means col_means using a b neg acc by blast
  qed
  show ?thesis
    unfolding Let_def opt_def [symmetric] var_def [symmetric] grad_def [symmetric]
      s_def [symmetric] g2_def [symmetric] d_def [symmetric]
    using sched zero mix ex by blast
qed

section \<open>The eighth-power encoding of small values\<close>

lemma to_bfloat16_absorb:
  assumes "2 powr real_of_int k \<le> \<bar>x\<bar>" and "\<bar>x\<bar> < 2 powr (real_of_int k + 1)"
    and "\<bar>x / 2 powr (real_of_int k - 7) - real_of_int n\<bar> < 1 / 2"
  shows "to_bfloat16 x = real_of_int n * 2 powr (real_of_int k - 7)"
proof -
  have "0 < 2 powr real_of_int k"
    by simp
  then have x0: "x \<noteq> 0"
    using assms(1) by auto
  have k: "\<lfloor>log 2 \<bar>x\<bar>\<rfloor> = k"
    using assms(1,2) by (rule floor_log2_eq)
  show ?thesis
    using x0 by (simp add: to_bfloat16_def Let_def k round_half_even_near [OF assms(3)])
qed

lemma to_bfloat16_one: "to_bfloat16 1 = 1" "to_bfloat16 (- 1) = - 1"
proof -
  have p: "2 powr (- 7) = (1 / 2 ^ 7 :: real)"
    by (simp add: powr_minus_divide)
  have "to_bfloat16 1 = real_of_int 128 * 2 powr (real_of_int 0 - 7)"
    by (rule to_bfloat16_absorb) (simp_all add: p)
  then show "to_bfloat16 1 = 1"
    by (simp add: p)
  have "to_bfloat16 (- 1) = real_of_int (- 128) * 2 powr (real_of_int 0 - 7)"
    by (rule to_bfloat16_absorb) (simp_all add: p)
  then show "to_bfloat16 (- 1) = - 1"
    by (simp add: p)
qed

lemma roundoff_candidates:
  "randomized_roundoff_to_bfloat16 x noise cand1 cand2 = cand1
   \<or> randomized_roundoff_to_bfloat16 x noise cand1 cand2 = cand2"
  by (simp add: randomized_roundoff_to_bfloat16_def Let_def)

lemma unbiased_magnitude_floor:
  assumes "1 / 10 ^ 30 \<le> x"
  shows "1 / (5 * 10 ^ 30)
         \<le> randomized_roundoff_to_bfloat16 x noise (to_bfloat16 x)
              (to_bfloat16 (if to_bfloat16 x < x then to_bfloat16 x * 1.005
                            else to_bfloat16 x * 0.995))"
proof -
  define cand1 where "cand1 = to_bfloat16 x"
  define inner where "inner = (if cand1 < x then cand1 * 1.005 else cand1 * 0.995)"
  define cand2 where "cand2 = to_bfloat16 inner"
  have x0: "1 / 10 ^ 30 \<le> x"
    using assms .
  have "(0 :: real) < 1 / 10 ^ 30"
    by simp
  then have xp: "0 < x"
    using x0 by linarith
  have c1: "x / 2 \<le> cand1"
    unfolding cand1_def using xp by (rule to_bfloat16_bounds(1))
  have c1p: "0 < cand1"
    using c1 xp by linarith
  have "cand1 * (199 / 200) \<le> inner"
    using c1p by (simp add: inner_def)
  then have i1: "x * (199 / 200) / 2 \<le> inner"
    using c1 by linarith
  then have ip: "0 < inner"
    using xp by linarith
  have "inner / 2 \<le> cand2"
    unfolding cand2_def using ip by (rule to_bfloat16_bounds(1))
  then have c2: "x * (199 / 200) / 4 \<le> cand2"
    using i1 by linarith
  have low1: "1 / (5 * 10 ^ 30) \<le> cand1"
    using c1 x0 by simp
  have low2: "1 / (5 * 10 ^ 30) \<le> cand2"
    using c2 x0 by simp
  have "1 / (5 * 10 ^ 30) \<le> randomized_roundoff_to_bfloat16 x noise cand1 cand2"
    using roundoff_candidates [of x noise cand1 cand2] low1 low2 by auto
  then show ?thesis
    unfolding cand2_def inner_def cand1_def .
qed

lemma to_bfloat16_unbiased_floor:
  assumes "y \<noteq> 0"
  shows "1 / (5 * 10 ^ 30) \<le> \<bar>to_bfloat16_unbiased y noise\<bar>"
proof -
  define R where "R = (\<lambda>x. randomized_roundoff_to_bfloat16 x noise (to_bfloat16 x)
              (to_bfloat16 (if to_bfloat16 x < x then to_bfloat16 x * 1.005
                            else to_bfloat16 x * 0.995)))"
  have u: "to_bfloat16_unbiased y noise = R (y * sign y + 1 / 10 ^ 30) * to_bfloat16 (sign y)"
    unfolding to_bfloat16_unbiased_def Let_def R_def by (rule refl)
  have m: "y * sign y = \<bar>y\<bar>"
    by (simp add: sign_def)
  have s: "\<bar>to_bfloat16 (sign y)\<bar> = 1"
    using assms by (simp add: sign_def to_bfloat16_one)
  have "1 / 10 ^ 30 \<le> \<bar>y\<bar> + 1 / 10 ^ 30"
    by simp
  then have "1 / (5 * 10 ^ 30) \<le> R (\<bar>y\<bar> + 1 / 10 ^ 30)"
    unfolding R_def by (rule unbiased_magnitude_floor)
  moreover have "\<bar>to_bfloat16_unbiased y noise\<bar> = \<bar>R (\<bar>y\<bar> + 1 / 10 ^ 30)\<bar>"
    unfolding u m by (simp only: abs_mult s mult_1_right)
  ultimately show ?thesis
    by linarith
qed

lemma encode_magnitude_floor:
  assumes "x \<noteq> 0"
  shows "1 / (5 * 10 ^ 30) \<le> \<bar>eighth_power_encode x noise\<bar>"
proof -
  have "sign x * (((\<bar>x\<bar> * 128)\<^sup>2)\<^sup>2)\<^sup>2 \<noteq> 0"
    using assms by (simp add: sign_def)
  then show ?thesis
    unfolding eighth_power_encode_def by (rule to_bfloat16_unbiased_floor)
qed

lemma decode_magnitude_floor:
  assumes "1 / (5 * 10 ^ 30) \<le> \<bar>e\<bar>"
  shows "1 / 2 ^ 20 \<le> \<bar>eighth_power_decode e\<bar>"
proof -
  have "(1 / 2 ^ 52 :: real)\<^sup>2 \<le> \<bar>e\<bar>"
    using assms by (simp add: power_divide)
  then have a: "1 / 2 ^ 52 \<le> sqrt \<bar>e\<bar>"
    by (rule real_le_rsqrt)
  have "(1 / 2 ^ 26 :: real)\<^sup>2 \<le> sqrt \<bar>e\<bar>"
    using a by (simp add: power_divide)
  then have b: "1 / 2 ^ 26 \<le> sqrt (sqrt \<bar>e\<bar>)"
    by (rule real_le_rsqrt)
  have "(1 / 2 ^ 13 :: real)\<^sup>2 \<le> sqrt (sqrt \<bar>e\<bar>)"
    using b by (simp add: power_divide)
  then have c: "1 / 2 ^ 13 \<le> sqrt (sqrt (sqrt \<bar>e\<bar>))"
    by (rule real_le_rsqrt)
  have e0: "e \<noteq> 0"
    using assms by auto
  have "\<bar>eighth_power_decode e\<bar> = sqrt (sqrt (sqrt \<bar>e\<bar>)) / 128"
    using e0 by (simp add: eighth_power_decode_def sign_def abs_mult)
  then show ?thesis
    using c by simp
qed

text \<open>
  Claim C4 does not hold of the code at the lower end of the range. \<open>_to_bfloat16_unbiased\<close>
  adds \<open>1e-30\<close> to the magnitude it rounds, and the encoded magnitude \<open>(128 * |x|)\<^sup>8\<close>
  of a value \<open>|x| \<le> 2\<^sup>-\<^sup>2\<^sup>1\<close> is at most \<open>2\<^sup>-\<^sup>1\<^sup>1\<^sup>2\<close>, far below. So for every \<open>x\<close>
  with \<open>2\<^sup>-\<^sup>2\<^sup>3 \<le> |x| \<le> 2\<^sup>-\<^sup>2\<^sup>1\<close> and every noise, the decoded encoding has a
  magnitude of at least \<open>2\<^sup>-\<^sup>2\<^sup>0\<close>, and it differs from \<open>x\<close> by at least \<open>|x|\<close>.
\<close>

theorem eighth_power_round_trip_floor:
  assumes "1 / 2 ^ 23 \<le> \<bar>x\<bar>" and "\<bar>x\<bar> \<le> 1 / 2 ^ 21"
  shows "1 / 2 ^ 20 \<le> \<bar>eighth_power_decode (eighth_power_encode x noise)\<bar>
       \<and> \<bar>x\<bar> \<le> \<bar>eighth_power_decode (eighth_power_encode x noise) - x\<bar>"
proof -
  have "x \<noteq> 0"
    using assms(1) by auto
  then have "1 / (5 * 10 ^ 30) \<le> \<bar>eighth_power_encode x noise\<bar>"
    by (rule encode_magnitude_floor)
  then have f: "1 / 2 ^ 20 \<le> \<bar>eighth_power_decode (eighth_power_encode x noise)\<bar>"
    by (rule decode_magnitude_floor)
  have "2 * \<bar>x\<bar> \<le> 1 / 2 ^ 20"
    using assms(2) by simp
  then have "\<bar>x\<bar> \<le> \<bar>eighth_power_decode (eighth_power_encode x noise)\<bar> - \<bar>x\<bar>"
    using f by linarith
  then have "\<bar>x\<bar> \<le> \<bar>eighth_power_decode (eighth_power_encode x noise) - x\<bar>"
    by linarith
  then show ?thesis
    using f by simp
qed

text \<open>
  The theorem at \<open>x = 2\<^sup>-\<^sup>2\<^sup>2\<close> with noise \<open>1/2\<close>.
\<close>

theorem eighth_power_round_trip_floor_witness:
  "(1 / 2 ^ 23 :: real) \<le> \<bar>1 / 2 ^ 22\<bar> \<and> \<bar>1 / 2 ^ 22 :: real\<bar> \<le> 1 / 2 ^ 21
   \<and> 1 / 2 ^ 20 \<le> \<bar>eighth_power_decode (eighth_power_encode (1 / 2 ^ 22) (1 / 2))\<bar>
   \<and> \<bar>1 / 2 ^ 22\<bar>
       \<le> \<bar>eighth_power_decode (eighth_power_encode (1 / 2 ^ 22) (1 / 2)) - 1 / 2 ^ 22\<bar>"
proof -
  have a: "(1 / 2 ^ 23 :: real) \<le> \<bar>1 / 2 ^ 22\<bar>" and b: "\<bar>1 / 2 ^ 22 :: real\<bar> \<le> 1 / 2 ^ 21"
    by simp_all
  show ?thesis
    using a b eighth_power_round_trip_floor [OF a b, of "1 / 2"] by blast
qed

end
